theory Spec2Isabelle
  imports Complex_Main "HOL-Library.Word"
begin

section \<open>The cursor of the wreath looper (head.h)\<close>

text \<open>
  The class \<open>Head\<close> of \<open>head.h\<close> is embedded as a record of its fields and one function per
  method. The conventions of the embedding:
  \<^item> an \<open>int32_t\<close> is an \<open>int\<close>. For the engine's buffer of \<open>kBufferSamples = 48000\<close>
    samples the arithmetic of the cursor stays between minus two and plus two buffer
    lengths, far from the limits of 32 bits. \<open>CalculateLoopEnd\<close> is stated for every captured
    length, so its sums are reduced to 32 bits with \<open>wrap32\<close>: signed overflow is undefined
    in C++, and on the two's-complement target the sum wraps;
  \<^item> a \<open>float\<close> is a \<open>real\<close>: rounding is not modelled. An \<open>int32_t\<close> converted to \<open>float\<close>
    is \<open>of_int\<close>, \<open>static_cast<int32_t>(std::floor(x))\<close> is \<open>\<lfloor>x\<rfloor>\<close>;
  \<^item> the buffer is not owned by the cursor (\<open>float *buffer_\<close>): it is a list of samples
    that every method reading or writing it takes and returns. An access outside the
    list is undefined behaviour in C++; here it is the error \<open>OutOfBounds i\<close>, \<open>i\<close> the index;
  \<^item> a member \<open>name_\<close> of the class is the field \<open>name\<close> (\<open>type_\<close> is \<open>htype\<close>,
    \<open>bufferSamples_\<close> is \<open>bufferSamples\<close>, and so on). The members \<open>fastAvg\<close>, \<open>slowAvg\<close>,
    \<open>prevDifference\<close> and \<open>inputValue_\<close> are never read or written and are left out.
\<close>

definition kMinLoopLengthSamples :: int where
  "kMinLoopLengthSamples = 48"

definition kMinLoopLengthForFade :: int where
  "kMinLoopLengthForFade = 4800"

definition kSamplesToFade :: int where
  "kSamplesToFade = 1200"

datatype Fade = NO_FADE | SMOOTH | IN | OUT

datatype Type = READ | WRITE

datatype Action = NO_ACTION | LOOP | INVERT | STOP

datatype Movement = NORMAL | PENDULUM | DRUNK

datatype Direction = BACKWARDS | FORWARD

text \<open>The value of the enumerator: \<open>BACKWARDS = -1\<close>, \<open>FORWARD = 1\<close>.\<close>

fun dirval :: "Direction \<Rightarrow> int" where
  "dirval BACKWARDS = -1"
| "dirval FORWARD = 1"

datatype error = OutOfBounds int

record head =
  htype :: Type
  maxBufferSamples :: int
  bufferSamples :: int
  intIndex :: int
  index :: real
  rate :: real
  fadeIndex :: real
  loopStart :: int
  loopEnd :: int
  loopLength :: int
  run :: bool
  looping :: bool
  movement :: Movement
  direction :: Direction
  mustFade :: Fade
  snapshotValue :: real
  currentValue :: real
  isStopping :: bool

text \<open>
  \<open>Head(Type type)\<close>: every member has the initialiser \<open>{}\<close>, so a new cursor has zeros,
  \<open>false\<close> and the enumerators of value 0 (\<open>NORMAL\<close>, \<open>NO_FADE\<close>). No enumerator of
  \<open>Direction\<close> has the value 0: the direction of a new cursor is given as \<open>FORWARD\<close> here,
  the value that \<open>Init\<close> sets through \<open>Reset\<close> before the cursor is used.
\<close>

definition Head :: "Type \<Rightarrow> head" where
  "Head t = \<lparr> htype = t, maxBufferSamples = 0, bufferSamples = 0, intIndex = 0, index = 0,
     rate = 0, fadeIndex = 0, loopStart = 0, loopEnd = 0, loopLength = 0, run = False,
     looping = False, movement = NORMAL, direction = FORWARD, mustFade = NO_FADE,
     snapshotValue = 0, currentValue = 0, isStopping = False \<rparr>"

subsection \<open>Buffer accesses\<close>

definition buf_read :: "real list \<Rightarrow> int \<Rightarrow> error + real" where
  "buf_read buf i =
     (if 0 \<le> i \<and> i < int (length buf) then Inr (buf ! nat i) else Inl (OutOfBounds i))"

definition buf_write :: "real list \<Rightarrow> int \<Rightarrow> real \<Rightarrow> error + real list" where
  "buf_write buf i v =
     (if 0 \<le> i \<and> i < int (length buf) then Inr (buf[nat i := v]) else Inl (OutOfBounds i))"

subsection \<open>Position and loop geometry\<close>

definition SetIndex :: "head \<Rightarrow> real \<Rightarrow> head" where
  "SetIndex h x = h\<lparr> index := x, intIndex := \<lfloor>x\<rfloor> \<rparr>"

definition SamplesToFade :: "head \<Rightarrow> int" where
  "SamplesToFade h = min kSamplesToFade (loopLength h)"

definition HandleLoopAction :: "head \<Rightarrow> Action \<times> head" where
  "HandleLoopAction h =
     (if loopEnd h > loopStart h then
        (if direction h = FORWARD then
           (if looping h \<and> intIndex h > loopEnd h then
              (if movement h = PENDULUM \<and> looping h
               then (INVERT, SetIndex h (of_int (loopEnd h) - (index h - of_int (loopEnd h))))
               else (LOOP, SetIndex h ((of_int (loopStart h) + (index h - of_int (loopEnd h))) - 1)))
            else if \<not> isStopping h \<and> \<not> looping h \<and> intIndex h > loopEnd h - SamplesToFade h
            then (STOP, h)
            else (NO_ACTION, h))
         else
           (if looping h \<and> intIndex h < loopStart h then
              (if movement h = PENDULUM \<and> looping h
               then (INVERT, SetIndex h (of_int (loopStart h) + (of_int (loopStart h) - index h)))
               else (LOOP, SetIndex h ((of_int (loopEnd h) - \<bar>of_int (loopStart h) - index h\<bar>) + 1)))
            else if \<not> isStopping h \<and> \<not> looping h \<and> intIndex h < loopStart h + SamplesToFade h
            then (STOP, h)
            else (NO_ACTION, h)))
      else
        (let frame = (of_int (bufferSamples h - 1) :: real) in
         if direction h = FORWARD then
           (if of_int (intIndex h) > frame
            then (if looping h then LOOP else STOP, SetIndex h ((index h - frame) - 1))
            else if intIndex h > loopEnd h \<and> intIndex h < loopStart h then
              (if movement h = PENDULUM \<and> looping h
               then (INVERT, SetIndex h (max (of_int (loopEnd h) - (index h - of_int (loopEnd h))) 0))
               else (if looping h then LOOP else STOP,
                     SetIndex h (min (of_int (loopStart h) + (index h - of_int (loopEnd h)) - 1) frame)))
            else (NO_ACTION, h))
         else
           (if intIndex h < 0
            then (if looping h then LOOP else STOP, SetIndex h ((frame - \<bar>index h\<bar>) + 1))
            else if intIndex h > loopEnd h \<and> intIndex h < loopStart h then
              (if movement h = PENDULUM \<and> looping h
               then (INVERT, SetIndex h (min (of_int (loopStart h) + (of_int (loopStart h) - index h)) frame))
               else (if looping h then LOOP else STOP,
                     SetIndex h (max (of_int (loopEnd h) - (of_int (loopStart h) - index h) + 1) 0)))
            else (NO_ACTION, h))))"

definition WrapIndex :: "head \<Rightarrow> int \<Rightarrow> int" where
  "WrapIndex h i =
     (if loopEnd h > loopStart h then
        (if i > loopEnd h then
           (if movement h = PENDULUM then loopEnd h - (i - loopEnd h)
            else if direction h = FORWARD then (loopStart h + (i - loopEnd h)) - 1 else 0)
         else if i < loopStart h then
           (if movement h = PENDULUM then loopStart h + (loopStart h - i)
            else if direction h = BACKWARDS then (loopEnd h - \<bar>loopStart h - i\<bar>) + 1 else 0)
         else i)
      else
        (let frame = bufferSamples h - 1 in
         if i > frame then (i - frame) - 1
         else if i < 0 then (frame - \<bar>i\<bar>) + 1
         else if i > loopEnd h \<and> i < loopStart h then
           (if direction h = FORWARD then
              (if movement h = PENDULUM then max (loopEnd h - (i - loopEnd h)) 0
               else min (loopStart h + (i - loopEnd h) - 1) frame)
            else
              (if movement h = PENDULUM then min (loopStart h + (loopStart h - i)) frame
               else max (loopEnd h - (loopStart h - i) + 1) 0))
         else i))"

text \<open>
  The value of a 32-bit two's-complement result: \<open>x\<close> reduced modulo \<open>2\<^sup>3\<^sup>2\<close> into
  \<open>[-2\<^sup>3\<^sup>1, 2\<^sup>3\<^sup>1)\<close>.
\<close>

definition wrap32 :: "int \<Rightarrow> int" where
  "wrap32 x = (x + 2147483648) mod 4294967296 - 2147483648"

text \<open>
  \<open>CalculateLoopEnd\<close>, every \<open>int32_t\<close> sum and difference reduced to 32 bits:
  \<open>loopStart_ + loopLength_\<close>, then \<open>- bufferSamples_\<close>, then \<open>- 1\<close>.
\<close>

definition CalculateLoopEnd :: "head \<Rightarrow> head" where
  "CalculateLoopEnd h =
     (if wrap32 (loopStart h + loopLength h) > bufferSamples h
      then h\<lparr> loopEnd :=
               wrap32 (wrap32 (wrap32 (loopStart h + loopLength h) - bufferSamples h) - 1) \<rparr>
      else h\<lparr> loopEnd := wrap32 (wrap32 (loopStart h + loopLength h) - 1) \<rparr>)"

definition Reset :: "head \<Rightarrow> head" where
  "Reset h = h\<lparr> intIndex := 0, index := 0, rate := 1, loopStart := 0, loopEnd := 0,
     loopLength := 0, run := True, looping := True, movement := NORMAL, direction := FORWARD \<rparr>"

text \<open>
  \<open>Init(buffer, maxBufferSamples)\<close>: the pointer \<open>buffer\<close> is the list the caller goes on
  passing to the methods.
\<close>

definition Init :: "head \<Rightarrow> int \<Rightarrow> head" where
  "Init h n = Reset (h\<lparr> maxBufferSamples := n \<rparr>)"

definition ResetPosition :: "head \<Rightarrow> head" where
  "ResetPosition h =
     SetIndex h (if direction h = FORWARD then of_int (loopStart h) else of_int (loopEnd h))"

definition SetLoopStart :: "head \<Rightarrow> int \<Rightarrow> int \<times> head" where
  "SetLoopStart h start =
     (let h1 = CalculateLoopEnd (h\<lparr> loopStart := min (max start 0) (bufferSamples h - 1) \<rparr>);
          h2 = (if \<not> looping h1 then ResetPosition h1 else h1)
      in (loopStart h2, h2))"

definition SetLoopLength :: "head \<Rightarrow> int \<Rightarrow> int \<times> head" where
  "SetLoopLength h len =
     (let h1 = CalculateLoopEnd
                 (h\<lparr> loopLength := min (max len kMinLoopLengthSamples) (bufferSamples h) \<rparr>)
      in (loopLength h1, h1))"

definition SetRate :: "head \<Rightarrow> real \<Rightarrow> head" where
  "SetRate h r = h\<lparr> rate := r \<rparr>"

definition SetMovement :: "head \<Rightarrow> Movement \<Rightarrow> head" where
  "SetMovement h m = h\<lparr> movement := m \<rparr>"

definition SetDirection :: "head \<Rightarrow> Direction \<Rightarrow> head" where
  "SetDirection h d = h\<lparr> direction := d \<rparr>"

definition SetLooping :: "head \<Rightarrow> bool \<Rightarrow> head" where
  "SetLooping h b = h\<lparr> looping := b \<rparr>"

text \<open>\<open>static_cast<Direction>(direction_ * -1)\<close>; the method returns the new direction.\<close>

definition ToggleDirection :: "head \<Rightarrow> head" where
  "ToggleDirection h =
     h\<lparr> direction := (if direction h = FORWARD then BACKWARDS else FORWARD) \<rparr>"

definition ToggleRun :: "head \<Rightarrow> bool \<times> head" where
  "ToggleRun h = (\<not> run h, h\<lparr> run := \<not> run h \<rparr>)"

definition IsFading :: "head \<Rightarrow> bool" where
  "IsFading h = (mustFade h \<noteq> NO_FADE)"

subsection \<open>Reading, fading and writing\<close>

text \<open>\<open>std::numeric_limits<float>::epsilon()\<close>, the value \<open>2\<^sup>-\<^sup>2\<^sup>3\<close>.\<close>

definition float_epsilon :: real where
  "float_epsilon = 1 / 2 ^ 23"

definition ReadAt :: "head \<Rightarrow> real list \<Rightarrow> real \<Rightarrow> error + real" where
  "ReadAt h buf x =
     (let intPos = \<lfloor>x\<rfloor> in
      case buf_read buf intPos of
        Inl e \<Rightarrow> Inl e
      | Inr v \<Rightarrow>
          (let frac = x - of_int intPos in
           if frac > float_epsilon then
             (case buf_read buf (WrapIndex h (intPos + dirval (direction h))) of
                Inl e \<Rightarrow> Inl e
              | Inr v2 \<Rightarrow> Inr (v + (v2 - v) * frac))
           else Inr v))"

definition SetUpFade :: "head \<Rightarrow> real list \<Rightarrow> Fade \<Rightarrow> error + head" where
  "SetUpFade h buf fade =
     (case ReadAt h buf (index h) of
        Inl e \<Rightarrow> Inl e
      | Inr v \<Rightarrow> Inr (h\<lparr> snapshotValue := v, mustFade := fade, fadeIndex := 0 \<rparr>))"

definition Run :: "head \<Rightarrow> real list \<Rightarrow> bool \<Rightarrow> error + head" where
  "Run h buf fade = (if fade then SetUpFade h buf IN else Inr (h\<lparr> run := True \<rparr>))"

definition Stop :: "head \<Rightarrow> real list \<Rightarrow> bool \<Rightarrow> error + head" where
  "Stop h buf fade =
     (if fade \<and> \<not> isStopping h then SetUpFade (h\<lparr> isStopping := True \<rparr>) buf OUT
      else Inr (ResetPosition (h\<lparr> isStopping := False, run := False \<rparr>)))"

text \<open>
  \<open>Run(false)\<close> and \<open>Stop(false)\<close> touch no sample and cannot fail; \<open>Read\<close> and \<open>Write\<close> call
  only these two, written \<open>Run_now\<close> and \<open>Stop_now\<close> (they are \<open>Run h buf False\<close> and
  \<open>Stop h buf False\<close>, as proved below).
\<close>

definition Run_now :: "head \<Rightarrow> head" where
  "Run_now h = h\<lparr> run := True \<rparr>"

definition Stop_now :: "head \<Rightarrow> head" where
  "Stop_now h = ResetPosition (h\<lparr> isStopping := False, run := False \<rparr>)"

definition UpdatePosition :: "head \<Rightarrow> real list \<Rightarrow> error + real \<times> head" where
  "UpdatePosition h buf =
     (if \<not> run h then Inr (index h, h)
      else
        (let h1 = SetIndex h (index h + rate h * of_int (dirval (direction h)));
             (action, h2) = HandleLoopAction h1
         in if htype h2 = READ then
              (case action of
                 STOP \<Rightarrow> (case Stop h2 buf True of
                            Inl e \<Rightarrow> Inl e
                          | Inr h3 \<Rightarrow> Inr (index h3, h3))
               | INVERT \<Rightarrow> (let h3 = ToggleDirection h2 in Inr (index h3, h3))
               | LOOP \<Rightarrow> Inr (index h2, h2)
               | NO_ACTION \<Rightarrow> Inr (index h2, h2))
            else Inr (index h2, h2)))"

text \<open>
  \<open>Read\<close>: \<open>pos\<close> is \<open>fadeIndex_ * (1.f / samplesToFade)\<close>; where \<open>samplesToFade\<close> is 0 the
  C++ quotient is an infinity and the HOL one is 0, and \<open>pos\<close> is used only under
  \<open>fadeIndex_ < samplesToFade - 1\<close>.
\<close>

definition Read :: "head \<Rightarrow> real list \<Rightarrow> error + real \<times> head" where
  "Read h buf =
     (case ReadAt h buf (index h) of
        Inl e \<Rightarrow> Inl e
      | Inr v \<Rightarrow>
          (let h0 = h\<lparr> currentValue := v \<rparr>;
               samplesToFade = SamplesToFade h0;
               h1 = (if mustFade h0 = IN then
                       (let hr = Run_now h0;
                            pos = fadeIndex hr * (1 / of_int samplesToFade)
                        in if fadeIndex hr < of_int (samplesToFade - 1)
                           then hr\<lparr> currentValue := currentValue hr * pos,
                                    fadeIndex := fadeIndex hr + rate hr \<rparr>
                           else hr\<lparr> mustFade := NO_FADE \<rparr>)
                     else if mustFade h0 = OUT then
                       (let pos = fadeIndex h0 * (1 / of_int samplesToFade)
                        in if fadeIndex h0 < of_int (samplesToFade - 1)
                           then h0\<lparr> currentValue := currentValue h0 * (1 - pos),
                                    fadeIndex := fadeIndex h0 + rate h0 \<rparr>
                           else Stop_now (h0\<lparr> mustFade := NO_FADE \<rparr>))
                     else h0);
               h2 = (if mustFade h1 = SMOOTH then
                       (let pos = fadeIndex h1 * (1 / of_int samplesToFade)
                        in if fadeIndex h1 < of_int (samplesToFade - 1)
                           then (let delta = snapshotValue h1 - currentValue h1
                                 in h1\<lparr> currentValue := currentValue h1 + delta * (1 - pos),
                                        fadeIndex := fadeIndex h1 + rate h1 \<rparr>)
                           else h1\<lparr> mustFade := NO_FADE \<rparr>)
                     else h1)
           in Inr (if run h2 then currentValue h2 else 0, h2)))"

definition Write :: "head \<Rightarrow> real list \<Rightarrow> real \<Rightarrow> error + head \<times> real list" where
  "Write h buf value =
     (case ReadAt h buf (index h) of
        Inl e \<Rightarrow> Inl e
      | Inr v \<Rightarrow>
          (let h0 = h\<lparr> currentValue := v \<rparr>;
               samplesToFade = SamplesToFade h0;
               (value1, h1) =
                 (if mustFade h0 = IN then
                    (let hr = Run_now h0;
                         pos = fadeIndex hr * (1 / of_int samplesToFade)
                     in if fadeIndex hr < of_int (samplesToFade - 1)
                        then (currentValue hr * (1 - pos) + value * pos,
                              hr\<lparr> fadeIndex := fadeIndex hr + rate hr \<rparr>)
                        else (value, hr\<lparr> mustFade := NO_FADE \<rparr>))
                  else if mustFade h0 = OUT then
                    (let pos = fadeIndex h0 * (1 / of_int samplesToFade)
                     in if fadeIndex h0 < of_int (samplesToFade - 1)
                        then (value * (1 - pos) + currentValue h0 * pos,
                              h0\<lparr> fadeIndex := fadeIndex h0 + rate h0 \<rparr>)
                        else (value, Stop_now (h0\<lparr> mustFade := NO_FADE \<rparr>)))
                  else (value, h0))
           in if run h1 then
                (case buf_write buf (WrapIndex h1 (intIndex h1)) value1 of
                   Inl e \<Rightarrow> Inl e
                 | Inr buf' \<Rightarrow> Inr (h1, buf'))
              else Inr (h1, buf)))"

subsection \<open>Initial capture\<close>

definition Buffer :: "head \<Rightarrow> real list \<Rightarrow> real \<Rightarrow> error + bool \<times> head \<times> real list" where
  "Buffer h buf value =
     (case buf_write buf (intIndex h) value of
        Inl e \<Rightarrow> Inl e
      | Inr buf' \<Rightarrow>
          (if bufferSamples h > maxBufferSamples h - 1 then Inr (True, h, buf')
           else Inr (False, h\<lparr> intIndex := intIndex h + 1, bufferSamples := intIndex h + 1 \<rparr>, buf')))"

definition InitBuffer :: "head \<Rightarrow> int \<Rightarrow> head" where
  "InitBuffer h n = h\<lparr> bufferSamples := n, loopLength := n, loopEnd := n - 1 \<rparr>"

definition StopBuffering :: "head \<Rightarrow> int \<times> head" where
  "StopBuffering h =
     (let h1 = ResetPosition
                 (h\<lparr> intIndex := 0, loopLength := bufferSamples h, loopEnd := bufferSamples h - 1 \<rparr>)
      in (bufferSamples h1, h1))"

subsection \<open>The active loop region\<close>

text \<open>
  The active loop region in the words of the specification: \<open>[loopStart, loopEnd]\<close> in the
  normal regime (\<open>loopEnd > loopStart\<close>, the test of \<open>WrapIndex\<close>), and the two pieces
  \<open>[0, loopEnd]\<close> and \<open>[loopStart, bufferedLength - 1]\<close> in the inverted regime.
\<close>

definition inLoopRegion :: "head \<Rightarrow> int \<Rightarrow> bool" where
  "inLoopRegion h i =
     (if loopEnd h > loopStart h then loopStart h \<le> i \<and> i \<le> loopEnd h
      else (0 \<le> i \<and> i \<le> loopEnd h) \<or> (loopStart h \<le> i \<and> i \<le> bufferSamples h - 1))"

subsection \<open>The cursor of the scenarios\<close>

text \<open>
  The cursor of the scenarios of the specification, built with the public methods: a
  buffer of 48000 samples, all captured, the loop length 500 and the loop start 1000 set
  in this order, the movement \<open>m\<close>, and the position 1499. \<open>Reset\<close> has left it running,
  looping, going forward at the rate 1.
\<close>

definition scenario_buffer :: "real list" where
  "scenario_buffer = replicate 48000 0"

definition scenario_cursor :: "Type \<Rightarrow> Movement \<Rightarrow> head" where
  "scenario_cursor t m =
     SetIndex
       (SetMovement
          (snd (SetLoopStart (snd (SetLoopLength (InitBuffer (Init (Head t) 48000) 48000) 500)) 1000))
          m)
       1499"

text \<open>
  Two more cursors built with the public methods. The argument of \<open>CalculateLoopEnd\<close> in
  \<open>SetLoopStart(1073741823)\<close> on a cursor given \<open>2\<^sup>3\<^sup>0 + 1\<close> captured samples by \<open>InitBuffer\<close>;
  and a cursor whose captured length is cut to 10 samples by a second \<open>InitBuffer\<close> after
  the loop start was set to 47999.
\<close>

definition huge_cursor :: head where
  "huge_cursor =
     (InitBuffer (Init (Head READ) 1073741825) 1073741825)\<lparr> loopStart := 1073741823 \<rparr>"

definition shrunk_cursor :: head where
  "shrunk_cursor =
     snd (SetLoopLength
            (InitBuffer (snd (SetLoopStart (InitBuffer (Init (Head READ) 48000) 48000) 47999)) 10)
            10)"

subsection \<open>Calling Buffer once per incoming sample\<close>

text \<open>
  The capture phase calls \<open>Buffer\<close> once per incoming sample. \<open>Buffer_all h buf vs\<close> makes
  these calls for the samples \<open>vs\<close> in order and collects the returned flags; it stops at
  the first access outside the buffer.
\<close>

fun Buffer_all :: "head \<Rightarrow> real list \<Rightarrow> real list \<Rightarrow> error + bool list \<times> head \<times> real list" where
  "Buffer_all h buf [] = Inr ([], h, buf)"
| "Buffer_all h buf (v # vs) =
     (case Buffer h buf v of
        Inl e \<Rightarrow> Inl e
      | Inr (b, h1, buf1) \<Rightarrow>
          (case Buffer_all h1 buf1 vs of
             Inl e \<Rightarrow> Inl e
           | Inr (bs, h2, buf2) \<Rightarrow> Inr (b # bs, h2, buf2)))"

subsection \<open>The public methods as calls\<close>

text \<open>
  The public methods of \<open>Head\<close> that change the cursor or touch a sample, as a datatype of
  calls with their arguments, and \<open>exec\<close>, which runs one call on a cursor and its buffer
  and drops the returned value. The constant getters change nothing and are left out, and
  so is \<open>ClearBuffer\<close>, which works on the bytes of the buffer and on no field of the
  cursor (it is modelled on bytes below).
\<close>

datatype call =
    CReset | CInit int | CSetLoopStart int | CSetLoopLength int | CSetRate real
  | CSetMovement Movement | CSetDirection Direction | CSetIndex real | CResetPosition
  | CUpdatePosition | CSetUpFade Fade | CRead | CReadAt real | CWrite real | CBuffer real
  | CInitBuffer int | CStopBuffering | CToggleDirection | CRun bool | CStop bool | CToggleRun
  | CSetLooping bool

fun exec :: "call \<Rightarrow> head \<Rightarrow> real list \<Rightarrow> error + head \<times> real list" where
  "exec CReset h buf = Inr (Reset h, buf)"
| "exec (CInit n) h buf = Inr (Init h n, buf)"
| "exec (CSetLoopStart v) h buf = Inr (snd (SetLoopStart h v), buf)"
| "exec (CSetLoopLength v) h buf = Inr (snd (SetLoopLength h v), buf)"
| "exec (CSetRate r) h buf = Inr (SetRate h r, buf)"
| "exec (CSetMovement m) h buf = Inr (SetMovement h m, buf)"
| "exec (CSetDirection d) h buf = Inr (SetDirection h d, buf)"
| "exec (CSetIndex x) h buf = Inr (SetIndex h x, buf)"
| "exec CResetPosition h buf = Inr (ResetPosition h, buf)"
| "exec CUpdatePosition h buf = map_sum id (\<lambda>(x, h'). (h', buf)) (UpdatePosition h buf)"
| "exec (CSetUpFade f) h buf = map_sum id (\<lambda>h'. (h', buf)) (SetUpFade h buf f)"
| "exec CRead h buf = map_sum id (\<lambda>(x, h'). (h', buf)) (Read h buf)"
| "exec (CReadAt x) h buf = map_sum id (\<lambda>v. (h, buf)) (ReadAt h buf x)"
| "exec (CWrite v) h buf = Write h buf v"
| "exec (CBuffer v) h buf = map_sum id snd (Buffer h buf v)"
| "exec (CInitBuffer n) h buf = Inr (InitBuffer h n, buf)"
| "exec CStopBuffering h buf = Inr (snd (StopBuffering h), buf)"
| "exec CToggleDirection h buf = Inr (ToggleDirection h, buf)"
| "exec (CRun b) h buf = map_sum id (\<lambda>h'. (h', buf)) (Run h buf b)"
| "exec (CStop b) h buf = map_sum id (\<lambda>h'. (h', buf)) (Stop h buf b)"
| "exec CToggleRun h buf = Inr (snd (ToggleRun h), buf)"
| "exec (CSetLooping b) h buf = Inr (SetLooping h b, buf)"

text \<open>
  \<open>Buffer\<close> and \<open>InitBuffer\<close> are the two methods that assign \<open>bufferSamples_\<close>: \<open>Buffer\<close>
  sets it to \<open>intIndex_ + 1\<close> and \<open>InitBuffer(n)\<close> to \<open>n\<close>. \<open>keeps_capture c h\<close> says that the
  call \<open>c\<close> does not shrink the captured region below the loop start of \<open>h\<close>.
\<close>

definition keeps_capture :: "call \<Rightarrow> head \<Rightarrow> bool" where
  "keeps_capture c h =
     (case c of CBuffer v \<Rightarrow> loopStart h \<le> intIndex h
              | CInitBuffer n \<Rightarrow> loopStart h < n
              | _ \<Rightarrow> True)"

text \<open>The invariant of the data model: \<open>0 \<le> loopStart < bufferedLength\<close>.\<close>

definition start_inside :: "head \<Rightarrow> bool" where
  "start_inside h = (0 \<le> loopStart h \<and> loopStart h < bufferSamples h)"

subsection \<open>The buffer as bytes\<close>

text \<open>
  \<open>ClearBuffer\<close> is the one method that works on the bytes of the buffer. For it the
  buffer is a list of bytes, four per \<open>float\<close> sample, the sample \<open>i\<close> at the offsets
  \<open>4 * i\<close> to \<open>4 * i + 3\<close>.
\<close>

type_synonym byte = "8 word"

text \<open>
  \<open>memset(dst, c, n)\<close> of the C library sets the first \<open>n\<close> bytes of \<open>dst\<close> to \<open>c\<close> converted
  to \<open>unsigned char\<close>. The count is a \<open>size_t\<close>: a negative \<open>int32_t\<close> converts to a count
  beyond any buffer. Writing beyond \<open>dst\<close> is the error \<open>OutOfBounds\<close> at the first byte
  past its end.
\<close>

definition memset :: "byte list \<Rightarrow> int \<Rightarrow> int \<Rightarrow> error + byte list" where
  "memset dst c n =
     (if 0 \<le> n \<and> n \<le> int (length dst)
      then Inr (replicate (nat n) (word_of_int c) @ drop (nat n) dst)
      else Inl (OutOfBounds (int (length dst))))"

text \<open>
  \<open>ClearBuffer\<close> is \<open>memset(buffer_, 0.f, maxBufferSamples_)\<close>: the value \<open>0.f\<close> converts to
  the \<open>int\<close> 0, and the count is the capacity in samples, taken as a number of bytes.
\<close>

definition ClearBuffer :: "head \<Rightarrow> byte list \<Rightarrow> error + byte list" where
  "ClearBuffer h bytes = memset bytes 0 (maxBufferSamples h)"

text \<open>The four bytes of the sample \<open>i\<close>; four zero bytes are the \<open>float\<close> \<open>0.0f\<close>.\<close>

definition sample_bytes :: "byte list \<Rightarrow> nat \<Rightarrow> byte list" where
  "sample_bytes bytes i = take 4 (drop (4 * i) bytes)"

section \<open>The engine (stereo_looper.h)\<close>

text \<open>
  The anonymous enumeration of the channels, the states of the engine, the filter
  outputs, and \<open>Looper::TriggerMode\<close> (its enumerator \<open>LOOP\<close> is \<open>LOOP_MODE\<close> here, \<open>LOOP\<close>
  being the action of the cursor).
\<close>

datatype Channel = LEFT | RIGHT | BOTH | NONE

datatype State = STARTUP | BUFFERING | READY | RECORDING | FROZEN

datatype FilterType = LP | BP | HP

datatype TriggerMode = GATE | TRIGGER | LOOP_MODE

text \<open>\<open>kParamSlewCoeff{1.f}\<close>, and the conversion of a \<open>float\<close> argument to an \<open>int32_t\<close>
  parameter, which truncates towards zero.\<close>

definition kParamSlewCoeff :: real where
  "kParamSlewCoeff = 1"

definition float_to_int32 :: "real \<Rightarrow> int" where
  "float_to_int32 x = (if 0 \<le> x then \<lfloor>x\<rfloor> else \<lceil>x\<rceil>)"

text \<open>
  The members of \<open>StereoLooper\<close> that \<open>Process\<close>, \<open>UpdateParameters\<close>, \<open>Reset\<close> and
  \<open>SetWriteRate\<close> read or write, with every request flag; \<open>loopers_[LEFT]\<close> and
  \<open>loopers_[RIGHT]\<close> are \<open>looperLeft\<close> and \<open>looperRight\<close>, \<open>state_\<close>, \<open>cf_\<close>, \<open>freeze_\<close> and the
  like lose the underscore, and \<open>startupFadeIndex\<close> is the \<open>static int32_t fadeIndex\<close> of
  the \<open>STARTUP\<close> case. The types \<open>'l\<close>, \<open>'c\<close> and \<open>'f\<close> are the states of a \<open>Looper\<close>, of
  the \<open>CrossFade\<close> and of an \<open>Svf\<close> filter.
\<close>

record ('l, 'c, 'f) stereo_looper =
  mustRestartRead :: bool
  mustResetLooper :: bool
  mustClearBuffer :: bool
  mustStopBuffering :: bool
  gain :: real
  mix :: real
  feedback :: real
  rateSlew :: real
  nextLeftLoopStart :: int
  nextRightLoopStart :: int
  leftDirection :: Direction
  rightDirection :: Direction
  nextLeftLoopLength :: int
  nextRightLoopLength :: int
  nextLeftReadRate :: real
  nextRightReadRate :: real
  mustSetChannelWriteRate :: Channel
  nextWriteRate :: real
  mustSetMode :: bool
  leftTriggerMode :: TriggerMode
  rightTriggerMode :: TriggerMode
  mustStart :: bool
  mustStop :: bool
  mustRestart :: bool
  stereoImage :: real
  dryLevel :: real
  filterType :: FilterType
  looperLeft :: 'l
  looperRight :: 'l
  state :: State
  cf :: 'c
  feedbackFilter :: 'f
  outputFilter :: 'f
  sampleRate :: int
  freeze :: real
  filterValue :: real
  startupFadeIndex :: int

text \<open>
  What \<open>stereo_looper.h\<close> calls and the sources do not contain: the functions and classes
  of the DaisySP library (\<open>SoftClip\<close>, \<open>fclamp\<close>, \<open>fonepole\<close>, which here returns the new
  value of its reference argument, \<open>CrossFade\<close>, \<open>Svf\<close>) and the methods of \<open>Looper\<close>, of
  which \<open>looper.h\<close> has declarations only. They are parameters of the model, with the
  arguments of the call sites; a method takes the state of its object and returns the
  new one, next to its result if it has one.
\<close>

record ('l, 'c, 'f) collaborators =
  SoftClip :: "real \<Rightarrow> real"
  fclamp :: "real \<Rightarrow> real \<Rightarrow> real \<Rightarrow> real"
  fonepole :: "real \<Rightarrow> real \<Rightarrow> real \<Rightarrow> real"
  CrossFade_SetPos :: "'c \<Rightarrow> real \<Rightarrow> 'c"
  CrossFade_Process :: "'c \<Rightarrow> real \<Rightarrow> real \<Rightarrow> real \<times> 'c"
  Svf_Process :: "'f \<Rightarrow> real \<Rightarrow> 'f"
  Svf_Low :: "'f \<Rightarrow> real"
  Svf_Band :: "'f \<Rightarrow> real"
  Svf_High :: "'f \<Rightarrow> real"
  Looper_Reset :: "'l \<Rightarrow> 'l"
  Looper_ClearBuffer :: "'l \<Rightarrow> 'l"
  Looper_Buffer :: "'l \<Rightarrow> real \<Rightarrow> bool \<times> 'l"
  Looper_StopBuffering :: "'l \<Rightarrow> 'l"
  Looper_Start :: "'l \<Rightarrow> bool \<Rightarrow> bool \<times> 'l"
  Looper_Stop :: "'l \<Rightarrow> bool \<Rightarrow> bool \<times> 'l"
  Looper_Trigger :: "'l \<Rightarrow> 'l"
  Looper_Read :: "'l \<Rightarrow> real \<Rightarrow> real \<times> 'l"
  Looper_Write :: "'l \<Rightarrow> real \<Rightarrow> 'l"
  Looper_UpdateReadPos :: "'l \<Rightarrow> 'l"
  Looper_UpdateWritePos :: "'l \<Rightarrow> 'l"
  Looper_HandleFade :: "'l \<Rightarrow> bool \<times> 'l"
  Looper_GetTriggerMode :: "'l \<Rightarrow> TriggerMode"
  Looper_SetTriggerMode :: "'l \<Rightarrow> TriggerMode \<Rightarrow> 'l"
  Looper_GetDirection :: "'l \<Rightarrow> Direction"
  Looper_SetDirection :: "'l \<Rightarrow> Direction \<Rightarrow> 'l"
  Looper_GetLoopLength :: "'l \<Rightarrow> int"
  Looper_SetLoopLength :: "'l \<Rightarrow> int \<Rightarrow> 'l"
  Looper_GetLoopStart :: "'l \<Rightarrow> int"
  Looper_SetLoopStart :: "'l \<Rightarrow> int \<Rightarrow> 'l"
  Looper_GetReadRate :: "'l \<Rightarrow> real"
  Looper_SetReadRate :: "'l \<Rightarrow> real \<Rightarrow> 'l"

definition SetWriteRate ::
  "('l, 'c, 'f) stereo_looper \<Rightarrow> Channel \<Rightarrow> real \<Rightarrow> ('l, 'c, 'f) stereo_looper" where
  "SetWriteRate s channel r = s\<lparr> mustSetChannelWriteRate := channel, nextWriteRate := r \<rparr>"

text \<open>\<open>StereoLooper::Reset\<close> (the name \<open>Reset\<close> is the cursor's).\<close>

definition StereoLooper_Reset ::
  "('l, 'c, 'f) collaborators \<Rightarrow> ('l, 'c, 'f) stereo_looper \<Rightarrow> ('l, 'c, 'f) stereo_looper" where
  "StereoLooper_Reset ext s =
     s\<lparr> looperLeft := Looper_Reset ext (looperLeft s),
        looperRight := Looper_Reset ext (looperRight s) \<rparr>"

definition Mix :: "('l, 'c, 'f) collaborators \<Rightarrow> real \<Rightarrow> real \<Rightarrow> real" where
  "Mix ext a b = SoftClip ext (a + b)"

definition Filter ::
  "('l, 'c, 'f) collaborators \<Rightarrow> FilterType \<Rightarrow> 'f \<Rightarrow> real \<Rightarrow> real \<times> 'f" where
  "Filter ext ft f v =
     (let f1 = Svf_Process ext f v
      in (case ft of BP \<Rightarrow> Svf_Band ext f1 | HP \<Rightarrow> Svf_High ext f1 | LP \<Rightarrow> Svf_Low ext f1, f1))"

definition UpdateParameters ::
  "('l, 'c, 'f) collaborators \<Rightarrow> ('l, 'c, 'f) stereo_looper \<Rightarrow> ('l, 'c, 'f) stereo_looper" where
  "UpdateParameters ext s =
     (let l1 = (if leftTriggerMode s \<noteq> Looper_GetTriggerMode ext (looperLeft s)
                then Looper_SetTriggerMode ext (looperLeft s) (leftTriggerMode s)
                else looperLeft s);
          r1 = (if rightTriggerMode s \<noteq> Looper_GetTriggerMode ext (looperRight s)
                then Looper_SetTriggerMode ext (looperRight s) (rightTriggerMode s)
                else looperRight s);
          l2 = (if leftDirection s \<noteq> Looper_GetDirection ext l1
                then Looper_SetDirection ext l1 (leftDirection s) else l1);
          r2 = (if rightDirection s \<noteq> Looper_GetDirection ext r1
                then Looper_SetDirection ext r1 (rightDirection s) else r1);
          leftLoopLength = (of_int (Looper_GetLoopLength ext l2) :: real);
          l3 = (if leftLoopLength \<noteq> of_int (nextLeftLoopLength s)
                then Looper_SetLoopLength ext l2
                       (float_to_int32
                          (fonepole ext leftLoopLength (of_int (nextLeftLoopLength s)) kParamSlewCoeff))
                else l2);
          rightLoopLength = (of_int (Looper_GetLoopLength ext r2) :: real);
          r3 = (if rightLoopLength \<noteq> of_int (nextRightLoopLength s)
                then Looper_SetLoopLength ext r2
                       (float_to_int32
                          (fonepole ext rightLoopLength (of_int (nextRightLoopLength s)) kParamSlewCoeff))
                else r2);
          leftLoopStart = (of_int (Looper_GetLoopStart ext l3) :: real);
          l4 = (if leftLoopStart \<noteq> of_int (nextLeftLoopStart s)
                then Looper_SetLoopStart ext l3
                       (float_to_int32
                          (fonepole ext leftLoopStart (of_int (nextLeftLoopStart s)) kParamSlewCoeff))
                else l3);
          rightLoopStart = (of_int (Looper_GetLoopStart ext r3) :: real);
          r4 = (if rightLoopStart \<noteq> of_int (nextRightLoopStart s)
                then Looper_SetLoopStart ext r3
                       (float_to_int32
                          (fonepole ext rightLoopStart (of_int (nextRightLoopStart s)) kParamSlewCoeff))
                else r3);
          leftReadRate = Looper_GetReadRate ext l4;
          l5 = (if leftReadRate \<noteq> nextLeftReadRate s
                then Looper_SetReadRate ext l4 (fonepole ext leftReadRate (nextLeftReadRate s) (rateSlew s))
                else l4);
          rightReadRate = Looper_GetReadRate ext r4;
          r5 = (if rightReadRate \<noteq> nextRightReadRate s
                then Looper_SetReadRate ext r4 (fonepole ext rightReadRate (nextRightReadRate s) (rateSlew s))
                else r4)
      in s\<lparr> looperLeft := l5, looperRight := r5 \<rparr>)"

text \<open>
  The five blocks \<open>if (mustClearBuffer) ...\<close>, \<open>if (mustResetLooper) ...\<close>,
  \<open>if (mustRestart) ...\<close>, \<open>if (mustStart) ...\<close> and \<open>if (mustStop) ...\<close> of the case
  \<open>RECORDING\<close>/\<open>FROZEN\<close> of \<open>Process\<close>, one definition each, in the order of the source.
\<close>

definition drain_mustClearBuffer ::
  "('l, 'c, 'f) collaborators \<Rightarrow> ('l, 'c, 'f) stereo_looper \<Rightarrow> ('l, 'c, 'f) stereo_looper" where
  "drain_mustClearBuffer ext s =
     (if mustClearBuffer s
      then s\<lparr> mustClearBuffer := False,
              looperLeft := Looper_ClearBuffer ext (looperLeft s),
              looperRight := Looper_ClearBuffer ext (looperRight s) \<rparr>
      else s)"

definition drain_mustResetLooper ::
  "('l, 'c, 'f) collaborators \<Rightarrow> ('l, 'c, 'f) stereo_looper \<Rightarrow> ('l, 'c, 'f) stereo_looper" where
  "drain_mustResetLooper ext s =
     (if mustResetLooper s
      then (StereoLooper_Reset ext
              (s\<lparr> mustResetLooper := False,
                  looperLeft := snd (Looper_Stop ext (looperLeft s) True),
                  looperRight := snd (Looper_Stop ext (looperRight s) True) \<rparr>))
           \<lparr> state := BUFFERING \<rparr>
      else s)"

definition drain_mustRestart ::
  "('l, 'c, 'f) collaborators \<Rightarrow> ('l, 'c, 'f) stereo_looper \<Rightarrow> ('l, 'c, 'f) stereo_looper" where
  "drain_mustRestart ext s =
     (if mustRestart s
      then s\<lparr> looperLeft := Looper_Trigger ext (looperLeft s),
              looperRight := Looper_Trigger ext (looperRight s),
              mustRestart := False \<rparr>
      else s)"

definition drain_mustStart ::
  "('l, 'c, 'f) collaborators \<Rightarrow> ('l, 'c, 'f) stereo_looper \<Rightarrow> ('l, 'c, 'f) stereo_looper" where
  "drain_mustStart ext s =
     (if mustStart s
      then (let (doneLeft, l) = Looper_Start ext (looperLeft s) False;
                (doneRight, r) = Looper_Start ext (looperRight s) False;
                s1 = s\<lparr> looperLeft := l, looperRight := r \<rparr>
            in if doneLeft \<and> doneRight then s1\<lparr> mustStart := False \<rparr> else s1)
      else s)"

definition drain_mustStop ::
  "('l, 'c, 'f) collaborators \<Rightarrow> ('l, 'c, 'f) stereo_looper \<Rightarrow> ('l, 'c, 'f) stereo_looper" where
  "drain_mustStop ext s =
     (if mustStop s
      then (let (doneLeft, l) = Looper_Stop ext (looperLeft s) False;
                (doneRight, r) = Looper_Stop ext (looperRight s) False;
                s1 = s\<lparr> looperLeft := l, looperRight := r \<rparr>
            in if doneLeft \<and> doneRight then s1\<lparr> mustStop := False \<rparr> else s1)
      else s)"

text \<open>
  The rest of the case: reading the wet signal, the feedback and its filters, writing,
  advancing the positions and the fades. The two channels share each filter, left first.
\<close>

definition signal_path ::
  "('l, 'c, 'f) collaborators \<Rightarrow> ('l, 'c, 'f) stereo_looper \<Rightarrow> real \<Rightarrow> real
     \<Rightarrow> real \<times> real \<times> ('l, 'c, 'f) stereo_looper" where
  "signal_path ext s leftDry rightDry =
     (let (leftWet0, l1) = Looper_Read ext (looperLeft s) leftDry;
          (rightWet0, r1) = Looper_Read ext (looperRight s) rightDry;
          leftFeedback0 = leftWet0 * feedback s;
          rightFeedback0 = rightWet0 * feedback s;
          (leftWet, rightWet, outF) =
            (if filterValue s \<ge> 20 \<and> freeze s > 0
             then (let (fl, o1) = Filter ext (filterType s) (outputFilter s) leftWet0;
                       lw = Mix ext leftWet0 (fl * freeze s);
                       (fr, o2) = Filter ext (filterType s) o1 rightWet0;
                       rw = Mix ext rightWet0 (fr * freeze s)
                   in (lw, rw, o2))
             else (leftWet0, rightWet0, outputFilter s));
          (leftFeedback, rightFeedback, fbF) =
            (if filterValue s \<ge> 20 \<and> freeze s < 1
             then (let (fl, f1) = Filter ext (filterType s) (feedbackFilter s) leftDry;
                       lf = Mix ext leftFeedback0 (fl * (1 - freeze s));
                       (fr, f2) = Filter ext (filterType s) f1 rightDry;
                       rf = Mix ext rightFeedback0 (fr * (1 - freeze s))
                   in (lf, rf, f2))
             else (leftFeedback0, rightFeedback0, feedbackFilter s));
          l2 = Looper_Write ext l1 (Mix ext leftDry leftFeedback);
          r2 = Looper_Write ext r1 (Mix ext rightDry rightFeedback);
          l3 = Looper_UpdateReadPos ext l2;
          r3 = Looper_UpdateReadPos ext r2;
          l4 = Looper_UpdateWritePos ext l3;
          r4 = Looper_UpdateWritePos ext r3;
          l5 = snd (Looper_HandleFade ext l4);
          r5 = snd (Looper_HandleFade ext r4)
      in (leftWet, rightWet,
          s\<lparr> looperLeft := l5, looperRight := r5, outputFilter := outF, feedbackFilter := fbF \<rparr>))"

text \<open>
  The case \<open>RECORDING\<close>/\<open>FROZEN\<close> as a whole; it returns the dry and the wet samples and
  the new state.
\<close>

definition Process_running ::
  "('l, 'c, 'f) collaborators \<Rightarrow> ('l, 'c, 'f) stereo_looper \<Rightarrow> real \<Rightarrow> real
     \<Rightarrow> real \<times> real \<times> real \<times> real \<times> ('l, 'c, 'f) stereo_looper" where
  "Process_running ext s leftDry rightDry =
     (let s1 = UpdateParameters ext s;
          leftDry1 = leftDry * dryLevel s1;
          rightDry1 = rightDry * dryLevel s1;
          s2 = drain_mustStop ext (drain_mustStart ext (drain_mustRestart ext
                 (drain_mustResetLooper ext (drain_mustClearBuffer ext s1))));
          (leftWet, rightWet, s3) = signal_path ext s2 leftDry1 rightDry1
      in (leftDry1, rightDry1, leftWet, rightWet, s3))"

definition Process ::
  "('l, 'c, 'f) collaborators \<Rightarrow> ('l, 'c, 'f) stereo_looper \<Rightarrow> real \<Rightarrow> real
     \<Rightarrow> (real \<times> real) \<times> ('l, 'c, 'f) stereo_looper" where
  "Process ext s leftIn rightIn =
     (let leftDry0 = SoftClip ext (leftIn * gain s);
          rightDry0 = SoftClip ext (rightIn * gain s);
          (leftDry, rightDry, leftWet, rightWet, s1) =
            (case state s of
               STARTUP \<Rightarrow>
                 (let s' = (if startupFadeIndex s > sampleRate s
                            then s\<lparr> startupFadeIndex := 0, state := BUFFERING \<rparr> else s)
                  in (leftDry0, rightDry0, 0, 0,
                      s'\<lparr> startupFadeIndex := startupFadeIndex s' + 1 \<rparr>))
             | BUFFERING \<Rightarrow>
                 (let (doneLeft, l) = Looper_Buffer ext (looperLeft s) leftDry0;
                      (doneRight, r) = Looper_Buffer ext (looperRight s) rightDry0;
                      s' = s\<lparr> looperLeft := l, looperRight := r \<rparr>
                  in (leftDry0, rightDry0, leftDry0, rightDry0,
                      if (doneLeft \<and> doneRight) \<or> mustStopBuffering s'
                      then s'\<lparr> mustStopBuffering := False,
                               looperLeft := Looper_StopBuffering ext l,
                               looperRight := Looper_StopBuffering ext r,
                               state := READY \<rparr>
                      else s'))
             | READY \<Rightarrow>
                 (leftDry0, rightDry0, 0, 0,
                  s\<lparr> nextLeftLoopLength := Looper_GetLoopLength ext (looperLeft s),
                     nextRightLoopLength := Looper_GetLoopLength ext (looperRight s),
                     nextLeftLoopStart := Looper_GetLoopStart ext (looperLeft s),
                     nextRightLoopStart := Looper_GetLoopStart ext (looperRight s),
                     nextLeftReadRate := 1, nextRightReadRate := 1 \<rparr>)
             | RECORDING \<Rightarrow> Process_running ext s leftDry0 rightDry0
             | FROZEN \<Rightarrow> Process_running ext s leftDry0 rightDry0);
          stereoLeft = leftWet * stereoImage s1 + rightWet * (1 - stereoImage s1);
          stereoRight = rightWet * stereoImage s1 + leftWet * (1 - stereoImage s1);
          c1 = CrossFade_SetPos ext (cf s1) (fclamp ext (mix s1) 0 1);
          (leftOut, c2) = CrossFade_Process ext c1 leftDry stereoLeft;
          (rightOut, c3) = CrossFade_Process ext c2 rightDry stereoRight
      in ((leftOut, rightOut), s1\<lparr> cf := c3 \<rparr>))"

text \<open>
  Collaborators for concrete runs: a looper is the list of the calls it has received, its
  getters answer the values of \<open>test_engine\<close>, and \<open>Start\<close> and \<open>Stop\<close> report \<open>finished\<close>.
  \<open>test_engine st\<close> is an engine in the state \<open>st\<close> with the clear-buffer, restart, start
  and stop requests pending.
\<close>

definition test_collaborators :: "bool \<Rightarrow> (string list, real, unit) collaborators" where
  "test_collaborators finished =
     \<lparr> SoftClip = (\<lambda>x. x),
       fclamp = (\<lambda>x lo hi. min (max x lo) hi),
       fonepole = (\<lambda>out inp coeff. out + coeff * (inp - out)),
       CrossFade_SetPos = (\<lambda>c p. p),
       CrossFade_Process = (\<lambda>c a b. (a * (1 - c) + b * c, c)),
       Svf_Process = (\<lambda>f x. f),
       Svf_Low = (\<lambda>f. 0),
       Svf_Band = (\<lambda>f. 0),
       Svf_High = (\<lambda>f. 0),
       Looper_Reset = (\<lambda>l. l @ [''Reset'']),
       Looper_ClearBuffer = (\<lambda>l. l @ [''ClearBuffer'']),
       Looper_Buffer = (\<lambda>l v. (True, l @ [''Buffer''])),
       Looper_StopBuffering = (\<lambda>l. l @ [''StopBuffering'']),
       Looper_Start = (\<lambda>l fade. (finished, l @ [''Start''])),
       Looper_Stop = (\<lambda>l fade. (finished, l @ [''Stop''])),
       Looper_Trigger = (\<lambda>l. l @ [''Trigger'']),
       Looper_Read = (\<lambda>l v. (v, l @ [''Read''])),
       Looper_Write = (\<lambda>l v. l @ [''Write'']),
       Looper_UpdateReadPos = (\<lambda>l. l @ [''UpdateReadPos'']),
       Looper_UpdateWritePos = (\<lambda>l. l @ [''UpdateWritePos'']),
       Looper_HandleFade = (\<lambda>l. (False, l @ [''HandleFade''])),
       Looper_GetTriggerMode = (\<lambda>l. LOOP_MODE),
       Looper_SetTriggerMode = (\<lambda>l m. l @ [''SetTriggerMode'']),
       Looper_GetDirection = (\<lambda>l. FORWARD),
       Looper_SetDirection = (\<lambda>l d. l @ [''SetDirection'']),
       Looper_GetLoopLength = (\<lambda>l. 48000),
       Looper_SetLoopLength = (\<lambda>l n. l @ [''SetLoopLength'']),
       Looper_GetLoopStart = (\<lambda>l. 0),
       Looper_SetLoopStart = (\<lambda>l n. l @ [''SetLoopStart'']),
       Looper_GetReadRate = (\<lambda>l. 1),
       Looper_SetReadRate = (\<lambda>l r. l @ [''SetReadRate'']) \<rparr>"

definition test_engine :: "State \<Rightarrow> (string list, real, unit) stereo_looper" where
  "test_engine st =
     \<lparr> mustRestartRead = False, mustResetLooper = False, mustClearBuffer = True,
       mustStopBuffering = False, gain = 1, mix = 1 / 2, feedback = 0, rateSlew = 1,
       nextLeftLoopStart = 0, nextRightLoopStart = 0, leftDirection = FORWARD,
       rightDirection = FORWARD, nextLeftLoopLength = 48000, nextRightLoopLength = 48000,
       nextLeftReadRate = 1, nextRightReadRate = 1, mustSetChannelWriteRate = NONE,
       nextWriteRate = 0, mustSetMode = False, leftTriggerMode = LOOP_MODE,
       rightTriggerMode = LOOP_MODE, mustStart = True, mustStop = True, mustRestart = True,
       stereoImage = 1, dryLevel = 1, filterType = BP, looperLeft = [], looperRight = [],
       state = st, cf = 0, feedbackFilter = (), outputFilter = (), sampleRate = 48000,
       freeze = 0, filterValue = 0, startupFadeIndex = 0 \<rparr>"

text \<open>The request flags that \<open>Process\<close> drains, and the write-rate request.\<close>

definition requests :: "('l, 'c, 'f) stereo_looper \<Rightarrow> bool \<times> bool \<times> bool \<times> bool \<times> bool" where
  "requests s = (mustClearBuffer s, mustResetLooper s, mustRestart s, mustStart s, mustStop s)"

definition write_rate_request :: "('l, 'c, 'f) stereo_looper \<Rightarrow> Channel \<times> real" where
  "write_rate_request s = (mustSetChannelWriteRate s, nextWriteRate s)"

section \<open>The loop end stays inside the captured region\<close>

lemma wrap32_in_range:
  assumes "- 2147483648 \<le> x" and "x < 2147483648"
  shows "wrap32 x = x"
  using assms by (simp add: wrap32_def)

text \<open>
  Claim C7, amended. In a captured region of at most \<open>2\<^sup>3\<^sup>0 = 1073741824\<close> samples, for
  every loop start in \<open>[0, bufferedLength - 1]\<close> and every loop length in
  \<open>[kMinLoopLengthSamples, bufferedLength]\<close>, the loop end that \<open>CalculateLoopEnd\<close> computes
  lies in \<open>[0, bufferedLength - 1]\<close>; no other field of the cursor changes.
\<close>

theorem CalculateLoopEnd_in_range:
  assumes "0 \<le> loopStart h" and "loopStart h \<le> bufferSamples h - 1"
    and "kMinLoopLengthSamples \<le> loopLength h" and "loopLength h \<le> bufferSamples h"
    and "bufferSamples h \<le> 1073741824"
  shows "0 \<le> loopEnd (CalculateLoopEnd h) \<and> loopEnd (CalculateLoopEnd h) \<le> bufferSamples h - 1
    \<and> CalculateLoopEnd h = h\<lparr> loopEnd := loopEnd (CalculateLoopEnd h) \<rparr>"
proof -
  have sum: "wrap32 (loopStart h + loopLength h) = loopStart h + loopLength h"
    using assms by (intro wrap32_in_range) (simp_all add: kMinLoopLengthSamples_def)
  show ?thesis
  proof (cases "loopStart h + loopLength h > bufferSamples h")
    case True
    have "wrap32 (loopStart h + loopLength h - bufferSamples h) =
        loopStart h + loopLength h - bufferSamples h"
      using assms True by (intro wrap32_in_range) simp_all
    moreover have "wrap32 (loopStart h + loopLength h - bufferSamples h - 1) =
        loopStart h + loopLength h - bufferSamples h - 1"
      using assms True by (intro wrap32_in_range) simp_all
    ultimately have "CalculateLoopEnd h =
        h\<lparr> loopEnd := loopStart h + loopLength h - bufferSamples h - 1 \<rparr>"
      using True by (simp add: CalculateLoopEnd_def sum)
    with assms True show ?thesis by simp
  next
    case False
    have "wrap32 (loopStart h + loopLength h - 1) = loopStart h + loopLength h - 1"
      using assms by (intro wrap32_in_range) (simp_all add: kMinLoopLengthSamples_def)
    then have "CalculateLoopEnd h = h\<lparr> loopEnd := loopStart h + loopLength h - 1 \<rparr>"
      using False by (simp add: CalculateLoopEnd_def sum)
    with assms False show ?thesis by (simp add: kMinLoopLengthSamples_def)
  qed
qed

theorem CalculateLoopEnd_in_range_witness:
  "0 \<le> loopStart (InitBuffer (Head READ) 48000\<lparr> loopStart := 47500, loopLength := 1000 \<rparr>)
   \<and> loopEnd (CalculateLoopEnd
         (InitBuffer (Head READ) 48000\<lparr> loopStart := 47500, loopLength := 1000 \<rparr>)) = 499"
  using CalculateLoopEnd_in_range
    [of "InitBuffer (Head READ) 48000\<lparr> loopStart := 47500, loopLength := 1000 \<rparr>"]
  by (simp add: InitBuffer_def Head_def CalculateLoopEnd_def wrap32_def kMinLoopLengthSamples_def)

text \<open>
  The claim as written, for every captured length, fails beyond \<open>2\<^sup>3\<^sup>0\<close> samples. With
  \<open>bufferedLength = loopLength = 1073741825\<close> and \<open>loopStart = 1073741823\<close> the pair is
  valid, the 32-bit sum \<open>loopStart_ + loopLength_\<close> wraps to \<open>-2\<^sup>3\<^sup>1\<close>, the test against
  \<open>bufferSamples_\<close> fails, and the loop end is \<open>-2\<^sup>3\<^sup>1 - 1\<close> wrapped, that is 2147483647.
\<close>

theorem CalculateLoopEnd_counterexample:
  "0 \<le> loopStart huge_cursor \<and> loopStart huge_cursor \<le> bufferSamples huge_cursor - 1
   \<and> kMinLoopLengthSamples \<le> loopLength huge_cursor
   \<and> loopLength huge_cursor \<le> bufferSamples huge_cursor
   \<and> loopEnd (CalculateLoopEnd huge_cursor) = 2147483647
   \<and> \<not> loopEnd (CalculateLoopEnd huge_cursor) \<le> bufferSamples huge_cursor - 1"
  by (simp add: huge_cursor_def InitBuffer_def Init_def Reset_def Head_def CalculateLoopEnd_def
      wrap32_def kMinLoopLengthSamples_def)

section \<open>Indices inside the loop are fixed points of the wrap\<close>

text \<open>
  Claim C8, amended. On a cursor whose loop lies in the captured region (\<open>0 \<le> loopStart\<close> and
  \<open>loopEnd \<le> bufferedLength - 1\<close>, the geometry of the data model), \<open>WrapIndex\<close> returns
  every index of the active loop region unchanged, in the normal and in the inverted
  regime, whatever the movement and the direction; hence wrapping such an index twice is
  wrapping it once.
\<close>

theorem WrapIndex_inside_loop:
  assumes "0 \<le> loopStart h" and "loopEnd h \<le> bufferSamples h - 1"
    and "inLoopRegion h i"
  shows "WrapIndex h i = i \<and> WrapIndex h (WrapIndex h i) = WrapIndex h i"
proof -
  have fixed: "WrapIndex h i = i"
  proof (cases "loopEnd h > loopStart h")
    case True
    with assms(3) show ?thesis
      by (simp add: WrapIndex_def inLoopRegion_def)
  next
    case False
    with assms have "0 \<le> i" and "i \<le> bufferSamples h - 1"
      and "\<not> (i > loopEnd h \<and> i < loopStart h)"
      by (auto simp: inLoopRegion_def)
    with False show ?thesis
      by (auto simp: WrapIndex_def Let_def)
  qed
  then show ?thesis by simp
qed

text \<open>
  The two regimes of the scenarios of the specification: the loop \<open>[1000, 1499]\<close> and the
  inverted loop from 47500 through the end of the buffer to 499.
\<close>

theorem WrapIndex_inside_loop_witness:
  "inLoopRegion (InitBuffer (Head READ) 48000\<lparr> loopStart := 47500, loopEnd := 499 \<rparr>) 47999
   \<and> WrapIndex (InitBuffer (Head READ) 48000\<lparr> loopStart := 47500, loopEnd := 499 \<rparr>) 47999 = 47999
   \<and> inLoopRegion (InitBuffer (Head READ) 48000\<lparr> loopStart := 1000, loopEnd := 1499 \<rparr>) 1200
   \<and> WrapIndex (InitBuffer (Head READ) 48000\<lparr> loopStart := 1000, loopEnd := 1499 \<rparr>) 1200 = 1200"
  using WrapIndex_inside_loop
    [of "InitBuffer (Head READ) 48000\<lparr> loopStart := 47500, loopEnd := 499 \<rparr>" 47999]
    WrapIndex_inside_loop
    [of "InitBuffer (Head READ) 48000\<lparr> loopStart := 1000, loopEnd := 1499 \<rparr>" 1200]
  by (simp add: InitBuffer_def Head_def inLoopRegion_def)

text \<open>
  The claim as written, for any cursor, fails where the loop does not lie in the captured
  region. After \<open>Init\<close>, \<open>InitBuffer(48000)\<close>, \<open>SetLoopStart(47999)\<close>, \<open>InitBuffer(10)\<close> and
  \<open>SetLoopLength(10)\<close> the cursor has \<open>loopStart = 47999\<close>, \<open>loopEnd = 47998\<close> and
  \<open>bufferedLength = 10\<close>: the index 20 is in the piece \<open>[0, loopEnd]\<close> of the inverted
  regime, \<open>WrapIndex\<close> sends it to 10, and 10 to 0.
\<close>

theorem WrapIndex_counterexample:
  "loopStart shrunk_cursor = 47999 \<and> loopEnd shrunk_cursor = 47998
   \<and> bufferSamples shrunk_cursor = 10
   \<and> inLoopRegion shrunk_cursor 20
   \<and> WrapIndex shrunk_cursor 20 = 10
   \<and> WrapIndex shrunk_cursor (WrapIndex shrunk_cursor 20) = 0"
proof -
  have c: "loopStart shrunk_cursor = 47999" "loopEnd shrunk_cursor = 47998"
    "bufferSamples shrunk_cursor = 10"
    by (simp_all add: shrunk_cursor_def SetLoopLength_def SetLoopStart_def InitBuffer_def Init_def
        Reset_def Head_def CalculateLoopEnd_def wrap32_def kMinLoopLengthSamples_def Let_def)
  have r: "inLoopRegion shrunk_cursor 20"
    by (simp add: inLoopRegion_def c)
  have w: "WrapIndex shrunk_cursor 20 = 10" "WrapIndex shrunk_cursor 10 = 0"
    by (simp_all add: WrapIndex_def c)
  from c r w show ?thesis by simp
qed

section \<open>Advancing the cursor\<close>

lemma scenario_cursor_eq:
  "scenario_cursor t m = \<lparr> htype = t, maxBufferSamples = 48000, bufferSamples = 48000,
     intIndex = 1499, index = 1499, rate = 1, fadeIndex = 0, loopStart = 1000, loopEnd = 1499,
     loopLength = 500, run = True, looping = True, movement = m, direction = FORWARD,
     mustFade = NO_FADE, snapshotValue = 0, currentValue = 0, isStopping = False \<rparr>"
  by (simp add: scenario_cursor_def SetIndex_def SetMovement_def SetLoopStart_def
      SetLoopLength_def InitBuffer_def Init_def Reset_def Head_def CalculateLoopEnd_def
      wrap32_def kMinLoopLengthSamples_def Let_def)

text \<open>\<open>HandleLoopAction\<close> moves the position and changes no other field.\<close>

lemma HandleLoopAction_frame:
  "snd (HandleLoopAction h) =
     h\<lparr> index := index (snd (HandleLoopAction h)), intIndex := intIndex (snd (HandleLoopAction h)) \<rparr>"
  by (simp add: HandleLoopAction_def SetIndex_def Let_def)

text \<open>
  Claim C4, amended. In a buffer of 48000 samples with the loop start 1000 and the loop
  length 500, the loop end that \<open>CalculateLoopEnd\<close> computes is 1499. A running, looping
  cursor with pendulum movement that stands at the position 1499 going forward at the
  rate 1 is moved by one advance to the position 1498, the mirror image of 1500 about
  the loop end, not to 1499; the direction of a Read cursor flips to backward, a Write
  cursor keeps going forward.
\<close>

theorem UpdatePosition_pendulum_reflects:
  assumes "loopStart h = 1000" and "loopLength h = 500" and "bufferSamples h = 48000"
    and "loopEnd h = loopEnd (CalculateLoopEnd h)"
    and "run h" and "looping h" and "movement h = PENDULUM" and "direction h = FORWARD"
    and "rate h = 1" and "index h = 1499" and "intIndex h = 1499"
  shows "loopEnd h = 1499
    \<and> UpdatePosition h buf =
        Inr (1498, h\<lparr> index := 1498, intIndex := 1498,
                       direction := (if htype h = READ then BACKWARDS else FORWARD) \<rparr>)"
proof -
  from assms(1-4) have le: "loopEnd h = 1499"
    by (simp add: CalculateLoopEnd_def wrap32_def)
  have "HandleLoopAction (SetIndex h 1500) = (INVERT, SetIndex h 1498)"
    using assms le by (simp add: HandleLoopAction_def SetIndex_def)
  then have "UpdatePosition h buf =
      Inr (1498, h\<lparr> index := 1498, intIndex := 1498,
                     direction := (if htype h = READ then BACKWARDS else FORWARD) \<rparr>)"
    using assms by (simp add: UpdatePosition_def SetIndex_def ToggleDirection_def)
  with le show ?thesis by simp
qed

theorem UpdatePosition_pendulum_reflects_witness:
  "loopEnd (scenario_cursor READ PENDULUM) = 1499
   \<and> UpdatePosition (scenario_cursor READ PENDULUM) scenario_buffer =
       Inr (1498, scenario_cursor READ PENDULUM
                    \<lparr> index := 1498, intIndex := 1498, direction := BACKWARDS \<rparr>)"
  using UpdatePosition_pendulum_reflects [of "scenario_cursor READ PENDULUM" scenario_buffer]
  by (simp add: scenario_cursor_eq CalculateLoopEnd_def wrap32_def)

text \<open>
  The claim as written fails on the cursor of the scenario: the advance succeeds and
  leaves the integer index 1498.
\<close>

theorem UpdatePosition_pendulum_counterexample:
  "UpdatePosition (scenario_cursor READ PENDULUM) scenario_buffer =
     Inr (1498, scenario_cursor READ PENDULUM
                  \<lparr> index := 1498, intIndex := 1498, direction := BACKWARDS \<rparr>)
   \<and> intIndex (scenario_cursor READ PENDULUM
                  \<lparr> index := 1498, intIndex := 1498, direction := BACKWARDS \<rparr>) \<noteq> 1499"
  by (simp add: scenario_cursor_eq UpdatePosition_def HandleLoopAction_def SetIndex_def
      ToggleDirection_def)

text \<open>
  Claim C9. \<open>UpdatePosition\<close> acts on the boundary action only for a Read cursor. On a
  Write cursor it always succeeds and returns the position that \<open>HandleLoopAction\<close> leaves
  after the step (the repositioning takes effect), and every field other than the
  position is unchanged, whatever the action: the direction is not flipped on \<open>INVERT\<close>,
  and on \<open>STOP\<close> no fade is set up, \<open>isStopping\<close> is not set and the cursor is not disabled.
\<close>

theorem UpdatePosition_write_ignores_action:
  assumes "htype h = WRITE"
  shows "let h' = (if run h
                   then snd (HandleLoopAction
                               (SetIndex h (index h + rate h * of_int (dirval (direction h)))))
                   else h)
         in UpdatePosition h buf = Inr (index h', h')
            \<and> h' = h\<lparr> index := index h', intIndex := intIndex h' \<rparr>
            \<and> direction h' = direction h \<and> run h' = run h \<and> mustFade h' = mustFade h
            \<and> fadeIndex h' = fadeIndex h \<and> isStopping h' = isStopping h"
proof (cases "run h")
  case False
  then show ?thesis by (simp add: UpdatePosition_def)
next
  case True
  define h1 where "h1 = SetIndex h (index h + rate h * of_int (dirval (direction h)))"
  define h2 where "h2 = snd (HandleLoopAction h1)"
  have frame: "h2 = h1\<lparr> index := index h2, intIndex := intIndex h2 \<rparr>"
    unfolding h2_def by (rule HandleLoopAction_frame)
  have h1: "h1 = h\<lparr> index := index h1, intIndex := intIndex h1 \<rparr>"
    by (simp add: h1_def SetIndex_def)
  have h2: "h2 = h\<lparr> index := index h2, intIndex := intIndex h2 \<rparr>"
    by (subst frame, subst h1) simp
  have ty: "htype h2 = WRITE"
    by (subst h2) (simp add: assms)
  have "UpdatePosition h buf = Inr (index h2, h2)"
    using True ty by (simp add: UpdatePosition_def Let_def h1_def [symmetric] h2_def [symmetric]
        split_beta)
  moreover have "direction h2 = direction h \<and> run h2 = run h \<and> mustFade h2 = mustFade h
      \<and> fadeIndex h2 = fadeIndex h \<and> isStopping h2 = isStopping h"
    by (subst h2, simp)+
  ultimately show ?thesis
    using True h2 by (simp add: Let_def h1_def [symmetric] h2_def [symmetric])
qed

text \<open>
  The Write cursor of the pendulum scenario: the action is \<open>INVERT\<close>, the position is
  reflected to 1498, and the cursor keeps going forward.
\<close>

theorem UpdatePosition_write_ignores_action_witness:
  "htype (scenario_cursor WRITE PENDULUM) = WRITE
   \<and> fst (HandleLoopAction (SetIndex (scenario_cursor WRITE PENDULUM) 1500)) = INVERT
   \<and> UpdatePosition (scenario_cursor WRITE PENDULUM) scenario_buffer =
       Inr (1498, scenario_cursor WRITE PENDULUM \<lparr> index := 1498, intIndex := 1498 \<rparr>)"
  using UpdatePosition_write_ignores_action [of "scenario_cursor WRITE PENDULUM" scenario_buffer]
  by (simp add: scenario_cursor_eq HandleLoopAction_def SetIndex_def Let_def)

section \<open>Completion of a fade-out\<close>

lemma Run_without_fade: "Run h buf False = Inr (Run_now h)"
  by (simp add: Run_def Run_now_def)

lemma Stop_without_fade: "Stop h buf False = Inr (Stop_now h)"
  by (simp add: Stop_def Stop_now_def)



section \<open>The capture phase\<close>

text \<open>
  While the buffer is not full, \<open>Buffer\<close> appends: from a cursor with
  \<open>intIndex = bufferSamples\<close> and room for all of \<open>vs\<close>, every call returns \<open>false\<close> and the
  two counters advance by the number of calls.
\<close>

lemma Buffer_all_filling:
  assumes "intIndex h = bufferSamples h" and "0 \<le> bufferSamples h"
    and "bufferSamples h + int (length vs) \<le> maxBufferSamples h"
    and "int (length buf) = maxBufferSamples h"
  shows "\<exists>buf'. Buffer_all h buf vs =
           Inr (replicate (length vs) False,
                h\<lparr> intIndex := bufferSamples h + int (length vs),
                   bufferSamples := bufferSamples h + int (length vs) \<rparr>, buf')
         \<and> length buf' = length buf"
  using assms
proof (induction vs arbitrary: h buf)
  case Nil
  then show ?case by simp
next
  case (Cons v vs)
  let ?h1 = "h\<lparr> intIndex := intIndex h + 1, bufferSamples := intIndex h + 1 \<rparr>"
  from Cons.prems have step: "Buffer h buf v = Inr (False, ?h1, buf[nat (intIndex h) := v])"
    by (simp add: Buffer_def buf_write_def)
  from Cons.prems have "\<exists>buf'. Buffer_all ?h1 (buf[nat (intIndex h) := v]) vs =
           Inr (replicate (length vs) False,
                ?h1\<lparr> intIndex := bufferSamples ?h1 + int (length vs),
                     bufferSamples := bufferSamples ?h1 + int (length vs) \<rparr>, buf')
         \<and> length buf' = length (buf[nat (intIndex h) := v])"
    by (intro Cons.IH) simp_all
  then obtain buf' where rest: "Buffer_all ?h1 (buf[nat (intIndex h) := v]) vs =
           Inr (replicate (length vs) False,
                ?h1\<lparr> intIndex := bufferSamples ?h1 + int (length vs),
                     bufferSamples := bufferSamples ?h1 + int (length vs) \<rparr>, buf')"
    and len: "length buf' = length buf"
    by auto
  from Cons.prems(1) step rest len show ?case
    by (simp add: add.assoc)
qed

lemma Buffer_all_append:
  "Buffer_all h buf (vs @ ws) =
     (case Buffer_all h buf vs of
        Inl e \<Rightarrow> Inl e
      | Inr (bs, h1, buf1) \<Rightarrow>
          (case Buffer_all h1 buf1 ws of
             Inl e \<Rightarrow> Inl e
           | Inr (cs, h2, buf2) \<Rightarrow> Inr (bs @ cs, h2, buf2)))"
  by (induction vs arbitrary: h buf) (auto split: sum.splits prod.splits)

lemma Init_fresh:
  "intIndex (Init (Head t) n) = 0 \<and> bufferSamples (Init (Head t) n) = 0
   \<and> maxBufferSamples (Init (Head t) n) = n"
  by (simp add: Init_def Reset_def Head_def)

text \<open>
  Claim C2, evaluated on the code. On a cursor freshly initialised over a buffer of
  \<open>capacity\<close> samples, each of the first \<open>capacity\<close> calls of \<open>Buffer\<close> returns \<open>false\<close>, the
  last of them included, and leaves \<open>intIndex = bufferSamples = capacity\<close>: the test
  \<open>bufferSamples_ > maxBufferSamples_ - 1\<close> is made before the counters advance, so it
  first holds in call \<open>capacity + 1\<close>.
\<close>

theorem Buffer_capacity_calls_return_false:
  assumes "int (length buf) = n" and "length vs = length buf"
  shows "\<exists>h' buf'. Buffer_all (Init (Head t) n) buf vs = Inr (replicate (length vs) False, h', buf')
           \<and> intIndex h' = n \<and> bufferSamples h' = n \<and> length buf' = length buf"
proof -
  let ?h = "Init (Head t) n"
  have "\<exists>buf'. Buffer_all ?h buf vs =
           Inr (replicate (length vs) False,
                ?h\<lparr> intIndex := bufferSamples ?h + int (length vs),
                    bufferSamples := bufferSamples ?h + int (length vs) \<rparr>, buf')
         \<and> length buf' = length buf"
    using assms by (intro Buffer_all_filling) (simp_all add: Init_fresh)
  with assms show ?thesis
    by (auto simp: Init_fresh)
qed

theorem Buffer_capacity_calls_return_false_witness:
  "\<exists>h' buf'. Buffer_all (Init (Head WRITE) 48000) scenario_buffer (replicate 48000 1) =
       Inr (replicate 48000 False, h', buf')
     \<and> intIndex h' = 48000 \<and> bufferSamples h' = 48000 \<and> length buf' = 48000"
  using Buffer_capacity_calls_return_false [of scenario_buffer 48000 "replicate 48000 1" WRITE]
  by (simp add: scenario_buffer_def)

text \<open>
  Claim C1, evaluated on the code. On a cursor freshly initialised over a buffer of
  \<open>capacity\<close> samples, call \<open>capacity + 1\<close> of \<open>Buffer\<close> writes at the index \<open>capacity\<close>, one
  past the last sample of the buffer: the write comes before the test for the end of the
  buffer.
\<close>

theorem Buffer_writes_past_the_end:
  assumes "int (length buf) = n" and "length vs = length buf"
  shows "Buffer_all (Init (Head t) n) buf (vs @ [v]) = Inl (OutOfBounds n)"
proof -
  let ?h = "Init (Head t) n"
  have "\<exists>buf'. Buffer_all ?h buf vs =
           Inr (replicate (length vs) False,
                ?h\<lparr> intIndex := bufferSamples ?h + int (length vs),
                    bufferSamples := bufferSamples ?h + int (length vs) \<rparr>, buf')
         \<and> length buf' = length buf"
    using assms by (intro Buffer_all_filling) (simp_all add: Init_fresh)
  then obtain buf' where full: "Buffer_all ?h buf vs =
           Inr (replicate (length vs) False, ?h\<lparr> intIndex := n, bufferSamples := n \<rparr>, buf')"
    and len: "length buf' = length buf"
    using assms by (auto simp: Init_fresh)
  have "Buffer (?h\<lparr> intIndex := n, bufferSamples := n \<rparr>) buf' v = Inl (OutOfBounds n)"
    using assms len by (simp add: Buffer_def buf_write_def)
  with full show ?thesis
    by (simp add: Buffer_all_append)
qed

theorem Buffer_writes_past_the_end_witness:
  "Buffer_all (Init (Head WRITE) 48000) scenario_buffer (replicate 48000 1 @ [1]) =
     Inl (OutOfBounds 48000)"
  using Buffer_writes_past_the_end [of scenario_buffer 48000 "replicate 48000 1" WRITE 1]
  by (simp add: scenario_buffer_def)

section \<open>The loop start stays inside the captured region\<close>

text \<open>The loop start, the captured length and the role through the methods that keep them.\<close>

lemma HandleLoopAction_geom:
  "loopStart (snd (HandleLoopAction h)) = loopStart h \<and> bufferSamples (snd (HandleLoopAction h)) = bufferSamples h \<and> htype (snd (HandleLoopAction h)) = htype h"
  by (subst HandleLoopAction_frame, simp)+

lemma SetUpFade_geom:
  "SetUpFade h buf f = Inr h' \<Longrightarrow> loopStart h' = loopStart h \<and> bufferSamples h' = bufferSamples h"
  by (auto simp: SetUpFade_def split: sum.splits)

lemma Stop_geom:
  "Stop h buf b = Inr h' \<Longrightarrow> loopStart h' = loopStart h \<and> bufferSamples h' = bufferSamples h"
  by (auto simp: Stop_def ResetPosition_def SetIndex_def dest: SetUpFade_geom split: if_splits)

lemma Run_geom:
  "Run h buf b = Inr h' \<Longrightarrow> loopStart h' = loopStart h \<and> bufferSamples h' = bufferSamples h"
  by (auto simp: Run_def dest: SetUpFade_geom split: if_splits)

lemma UpdatePosition_geom:
  assumes "UpdatePosition h buf = Inr (x, h')"
  shows "loopStart h' = loopStart h \<and> bufferSamples h' = bufferSamples h"
proof (cases "run h")
  case False
  with assms show ?thesis by (simp add: UpdatePosition_def)
next
  case True
  define h1 where "h1 = SetIndex h (index h + rate h * of_int (dirval (direction h)))"
  define h2 where "h2 = snd (HandleLoopAction h1)"
  define a where "a = fst (HandleLoopAction h1)"
  have g: "loopStart h2 = loopStart h \<and> bufferSamples h2 = bufferSamples h"
    by (simp add: h2_def HandleLoopAction_geom) (simp add: h1_def SetIndex_def)
  from assms True have "(htype h2 = READ \<and> a = STOP \<and> Stop h2 buf True = Inr h') \<or> h' = ToggleDirection h2 \<or> h' = h2"
    by (auto simp: UpdatePosition_def Let_def split_beta h1_def [symmetric] h2_def [symmetric] a_def [symmetric]
        split: if_splits Action.splits sum.splits)
  then show ?thesis
    using g by (auto simp: ToggleDirection_def dest: Stop_geom)
qed

lemma Read_geom:
  assumes "Read h buf = Inr (x, h')"
  shows "loopStart h' = loopStart h \<and> bufferSamples h' = bufferSamples h"
  using assms
  by (auto simp: Read_def Let_def Run_now_def Stop_now_def ResetPosition_def SetIndex_def split: sum.splits if_splits)

lemma Write_geom:
  assumes "Write h buf v = Inr (h', buf')"
  shows "loopStart h' = loopStart h \<and> bufferSamples h' = bufferSamples h"
  using assms
  by (auto simp: Write_def Let_def Run_now_def Stop_now_def ResetPosition_def SetIndex_def split: sum.splits if_splits)


lemma exec_keeps_start_inside:
  assumes "start_inside h" and "keeps_capture c h" and "exec c h buf = Inr (h', buf')"
  shows "start_inside h'"
proof (cases c)
  case CReset
  with assms show ?thesis by (auto simp: start_inside_def Reset_def)
next
  case (CInit n)
  with assms show ?thesis by (auto simp: start_inside_def Init_def Reset_def)
next
  case (CSetLoopStart v)
  with assms show ?thesis
    by (auto simp: start_inside_def SetLoopStart_def CalculateLoopEnd_def ResetPosition_def
        SetIndex_def Let_def)
next
  case (CSetLoopLength v)
  with assms show ?thesis
    by (auto simp: start_inside_def SetLoopLength_def CalculateLoopEnd_def Let_def)
next
  case (CSetRate r)
  with assms show ?thesis by (auto simp: start_inside_def SetRate_def)
next
  case (CSetMovement m)
  with assms show ?thesis by (auto simp: start_inside_def SetMovement_def)
next
  case (CSetDirection d)
  with assms show ?thesis by (auto simp: start_inside_def SetDirection_def)
next
  case (CSetIndex x)
  with assms show ?thesis by (auto simp: start_inside_def SetIndex_def)
next
  case CResetPosition
  with assms show ?thesis by (auto simp: start_inside_def ResetPosition_def SetIndex_def)
next
  case CUpdatePosition
  with assms show ?thesis
    by (cases "UpdatePosition h buf") (auto simp: start_inside_def dest: UpdatePosition_geom)
next
  case (CSetUpFade f)
  with assms show ?thesis
    by (cases "SetUpFade h buf f") (auto simp: start_inside_def dest: SetUpFade_geom)
next
  case CRead
  with assms show ?thesis
    by (cases "Read h buf") (auto simp: start_inside_def dest: Read_geom)
next
  case (CReadAt x)
  with assms show ?thesis
    by (cases "ReadAt h buf x") (auto simp: start_inside_def)
next
  case (CWrite v)
  with assms show ?thesis
    by (auto simp: start_inside_def dest: Write_geom)
next
  case (CBuffer v)
  with assms show ?thesis
    by (auto simp: start_inside_def keeps_capture_def Buffer_def split: sum.splits if_splits)
next
  case (CInitBuffer n)
  with assms show ?thesis by (auto simp: start_inside_def keeps_capture_def InitBuffer_def)
next
  case CStopBuffering
  with assms show ?thesis
    by (auto simp: start_inside_def StopBuffering_def ResetPosition_def SetIndex_def Let_def)
next
  case CToggleDirection
  with assms show ?thesis by (auto simp: start_inside_def ToggleDirection_def)
next
  case (CRun b)
  with assms show ?thesis
    by (cases "Run h buf b") (auto simp: start_inside_def dest: Run_geom)
next
  case (CStop b)
  with assms show ?thesis
    by (cases "Stop h buf b") (auto simp: start_inside_def dest: Stop_geom)
next
  case CToggleRun
  with assms show ?thesis by (auto simp: start_inside_def ToggleRun_def)
next
  case (CSetLooping b)
  with assms show ?thesis by (auto simp: start_inside_def SetLooping_def)
qed

text \<open>
  Claim C3, amended. On a cursor that has captured at least one sample
  (\<open>bufferedLength \<ge> 1\<close>), \<open>SetLoopStart(v)\<close> for every \<open>v\<close> sets the loop start to \<open>v\<close>
  clamped to \<open>[0, bufferedLength - 1]\<close>, returns that applied value and leaves the captured
  length as it is, so that \<open>0 \<le> loopStart < bufferedLength\<close> holds afterwards. Once it
  holds, the invariant is kept by every public method that succeeds, where \<open>Buffer\<close> is
  called with \<open>loopStart \<le> intIndex\<close> and \<open>InitBuffer(n)\<close> with \<open>loopStart < n\<close>.
\<close>

theorem SetLoopStart_clamps_when_captured:
  assumes "1 \<le> bufferSamples h"
  shows "fst (SetLoopStart h v) = loopStart (snd (SetLoopStart h v))
    \<and> loopStart (snd (SetLoopStart h v)) = min (max v 0) (bufferSamples h - 1)
    \<and> bufferSamples (snd (SetLoopStart h v)) = bufferSamples h
    \<and> start_inside (snd (SetLoopStart h v))
    \<and> (\<forall>c buf h' buf'. start_inside h \<and> keeps_capture c h \<and> exec c h buf = Inr (h', buf')
          \<longrightarrow> start_inside h')"
proof -
  have geom: "loopStart (snd (SetLoopStart h v)) = min (max v 0) (bufferSamples h - 1)"
    "bufferSamples (snd (SetLoopStart h v)) = bufferSamples h"
    by (simp_all add: SetLoopStart_def CalculateLoopEnd_def ResetPosition_def SetIndex_def Let_def)
  have ret: "fst (SetLoopStart h v) = loopStart (snd (SetLoopStart h v))"
    by (simp add: SetLoopStart_def Let_def)
  have inside: "start_inside (snd (SetLoopStart h v))"
    unfolding start_inside_def geom using assms by simp
  have kept: "\<forall>c buf h' buf'. start_inside h \<and> keeps_capture c h \<and> exec c h buf = Inr (h', buf')
          \<longrightarrow> start_inside h'"
    using exec_keeps_start_inside by blast
  from geom ret inside kept show ?thesis
    by (intro conjI)
qed

theorem SetLoopStart_clamps_when_captured_witness:
  "1 \<le> bufferSamples (InitBuffer (Init (Head READ) 48000) 48000)
   \<and> fst (SetLoopStart (InitBuffer (Init (Head READ) 48000) 48000) 50000) = 47999
   \<and> start_inside (snd (SetLoopStart (InitBuffer (Init (Head READ) 48000) 48000) 50000))
   \<and> start_inside (InitBuffer (Init (Head READ) 48000) 48000)
   \<and> keeps_capture (CSetLoopLength 500) (InitBuffer (Init (Head READ) 48000) 48000)
   \<and> exec (CSetLoopLength 500) (InitBuffer (Init (Head READ) 48000) 48000) scenario_buffer =
       Inr (snd (SetLoopLength (InitBuffer (Init (Head READ) 48000) 48000) 500), scenario_buffer)
   \<and> start_inside (snd (SetLoopLength (InitBuffer (Init (Head READ) 48000) 48000) 500))"
  using SetLoopStart_clamps_when_captured [of "InitBuffer (Init (Head READ) 48000) 48000" 50000]
  by (simp add: InitBuffer_def Init_def Reset_def Head_def start_inside_def keeps_capture_def
      SetLoopStart_def SetLoopLength_def CalculateLoopEnd_def wrap32_def kMinLoopLengthSamples_def
      Let_def)

text \<open>
  The claim as written, with no condition on the captured length, fails on a cursor that
  has captured nothing: after \<open>Init\<close> the invariant does not hold (\<open>loopStart = 0\<close> is not
  below \<open>bufferedLength = 0\<close>), and \<open>SetLoopStart(5)\<close> applies and returns \<open>-1\<close>.
\<close>

theorem SetLoopStart_counterexample:
  "\<not> start_inside (Init (Head READ) 48000)
   \<and> fst (SetLoopStart (Init (Head READ) 48000) 5) = -1
   \<and> loopStart (snd (SetLoopStart (Init (Head READ) 48000) 5)) = -1
   \<and> bufferSamples (snd (SetLoopStart (Init (Head READ) 48000) 5)) = 0"
  by (simp add: start_inside_def SetLoopStart_def CalculateLoopEnd_def wrap32_def Init_def
      Reset_def Head_def Let_def)

section \<open>Clearing the buffer\<close>

lemma take4_drop_append_left:
  assumes "4 * i + 4 \<le> n"
  shows "take 4 (drop (4 * i) (replicate n (x::byte) @ ys)) = replicate 4 x"
  using assms by (simp add: min_def)

lemma take4_drop_append_right:
  assumes "n \<le> 4 * i" and "n \<le> length ys"
  shows "take 4 (drop (4 * i) (replicate n (x::byte) @ drop n ys)) = take 4 (drop (4 * i) ys)"
  using assms by simp

text \<open>
  Claim C10. On a buffer of \<open>maxBufferSamples\<close> samples of four bytes each, \<open>ClearBuffer\<close>
  succeeds and zeroes the first \<open>maxBufferSamples\<close> bytes and no other: the length is
  kept, the bytes from the offset \<open>maxBufferSamples\<close> on are unchanged, every sample
  below \<open>maxBufferSamples div 4\<close> is zero, and every sample \<open>i\<close> with
  \<open>i \<ge> maxBufferSamples / 4\<close> (the exact quotient: \<open>4 * i \<ge> maxBufferSamples\<close>) is
  unchanged. Three quarters of the buffer are not cleared.
\<close>

theorem ClearBuffer_zeroes_a_quarter:
  assumes "0 \<le> maxBufferSamples h" and "int (length bytes) = 4 * maxBufferSamples h"
  shows "ClearBuffer h bytes =
           Inr (replicate (nat (maxBufferSamples h)) 0 @ drop (nat (maxBufferSamples h)) bytes)
    \<and> length (projr (ClearBuffer h bytes)) = length bytes
    \<and> take (nat (maxBufferSamples h)) (projr (ClearBuffer h bytes)) = replicate (nat (maxBufferSamples h)) 0
    \<and> drop (nat (maxBufferSamples h)) (projr (ClearBuffer h bytes)) = drop (nat (maxBufferSamples h)) bytes
    \<and> (\<forall>i. int i < maxBufferSamples h div 4 \<longrightarrow>
           sample_bytes (projr (ClearBuffer h bytes)) i = replicate 4 0)
    \<and> (\<forall>i. maxBufferSamples h \<le> 4 * int i \<longrightarrow>
           sample_bytes (projr (ClearBuffer h bytes)) i = sample_bytes bytes i)"
proof -
  define n where "n = nat (maxBufferSamples h)"
  have n: "maxBufferSamples h = int n" and len: "length bytes = 4 * n"
    using assms by (simp_all add: n_def)
  have eq: "ClearBuffer h bytes = Inr (replicate n 0 @ drop n bytes)"
    by (simp add: ClearBuffer_def memset_def n len)
  have zero: "sample_bytes (replicate n 0 @ drop n bytes) i = replicate 4 0" if "int i < int n div 4" for i
  proof -
    from that have "4 * i + 4 \<le> n" by linarith
    then show ?thesis unfolding sample_bytes_def by (rule take4_drop_append_left)
  qed
  have kept: "sample_bytes (replicate n 0 @ drop n bytes) i = sample_bytes bytes i" if "int n \<le> 4 * int i" for i
  proof -
    from that have "n \<le> 4 * i" by linarith
    moreover have "n \<le> length bytes" by (simp add: len)
    ultimately show ?thesis unfolding sample_bytes_def by (rule take4_drop_append_right)
  qed
  show ?thesis
    unfolding eq n using zero kept by (simp add: len)
qed

theorem ClearBuffer_zeroes_a_quarter_witness:
  "ClearBuffer (Init (Head WRITE) 48000) (replicate 192000 255) =
     Inr (replicate 48000 0 @ replicate 144000 255)
   \<and> sample_bytes (projr (ClearBuffer (Init (Head WRITE) 48000) (replicate 192000 255))) 11999 =
       [0, 0, 0, 0]
   \<and> sample_bytes (projr (ClearBuffer (Init (Head WRITE) 48000) (replicate 192000 255))) 12000 =
       [255, 255, 255, 255]"
proof -
  let ?h = "Init (Head WRITE) 48000"
  let ?b = "replicate 192000 255 :: byte list"
  have mx: "maxBufferSamples ?h = 48000"
    by (simp add: Init_def Reset_def Head_def)
  have pre: "0 \<le> maxBufferSamples ?h" "int (length ?b) = 4 * maxBufferSamples ?h"
    by (simp_all add: mx)
  note t = ClearBuffer_zeroes_a_quarter [OF pre]
  from t have "ClearBuffer ?h ?b =
      Inr (replicate (nat (maxBufferSamples ?h)) 0 @ drop (nat (maxBufferSamples ?h)) ?b)"
    by (rule conjunct1)
  then have a: "ClearBuffer ?h ?b = Inr (replicate 48000 0 @ replicate 144000 255)"
    by (simp add: mx)
  from t have "\<forall>i. int i < maxBufferSamples ?h div 4 \<longrightarrow>
      sample_bytes (projr (ClearBuffer ?h ?b)) i = replicate 4 0"
    by blast
  then have "sample_bytes (projr (ClearBuffer ?h ?b)) 11999 = replicate 4 0"
    by (simp add: mx)
  moreover have "replicate 4 (0::byte) = [0, 0, 0, 0]"
    by (simp add: numeral_eq_Suc)
  ultimately have b: "sample_bytes (projr (ClearBuffer ?h ?b)) 11999 = [0, 0, 0, 0]"
    by simp
  from t have "\<forall>i. maxBufferSamples ?h \<le> 4 * int i \<longrightarrow>
      sample_bytes (projr (ClearBuffer ?h ?b)) i = sample_bytes ?b i"
    by blast
  then have "sample_bytes (projr (ClearBuffer ?h ?b)) 12000 = sample_bytes ?b 12000"
    by (simp add: mx)
  moreover have "sample_bytes ?b 12000 = replicate 4 255"
    by (simp add: sample_bytes_def)
  moreover have "replicate 4 (255::byte) = [255, 255, 255, 255]"
    by (simp add: numeral_eq_Suc)
  ultimately have c: "sample_bytes (projr (ClearBuffer ?h ?b)) 12000 = [255, 255, 255, 255]"
    by simp
  from a b c show ?thesis by (intro conjI)
qed

section \<open>One-shot requests\<close>

text \<open>
  \<open>UpdateParameters\<close> and the signal path change the loopers and the filters and nothing
  else of the engine.
\<close>

lemma UpdateParameters_frame:
  "UpdateParameters ext s =
     s\<lparr> looperLeft := looperLeft (UpdateParameters ext s),
        looperRight := looperRight (UpdateParameters ext s) \<rparr>"
  by (simp add: UpdateParameters_def Let_def)

lemma signal_path_frame:
  "snd (snd (signal_path ext s a b)) =
     s\<lparr> looperLeft := looperLeft (snd (snd (signal_path ext s a b))),
        looperRight := looperRight (snd (snd (signal_path ext s a b))),
        outputFilter := outputFilter (snd (snd (signal_path ext s a b))),
        feedbackFilter := feedbackFilter (snd (snd (signal_path ext s a b))) \<rparr>"
  by (simp add: signal_path_def Let_def split_beta)


lemma requests_UpdateParameters: "requests (UpdateParameters ext s) = requests s"
  by (subst UpdateParameters_frame) (simp add: requests_def)

lemma requests_signal_path: "requests (snd (snd (signal_path ext s a b))) = requests s"
  by (subst signal_path_frame) (simp add: requests_def)

lemma requests_drain_mustClearBuffer:
  "requests (drain_mustClearBuffer ext s) =
     (False, mustResetLooper s, mustRestart s, mustStart s, mustStop s)"
  by (simp add: requests_def drain_mustClearBuffer_def)

lemma requests_drain_mustResetLooper:
  "requests (drain_mustResetLooper ext s) =
     (mustClearBuffer s, False, mustRestart s, mustStart s, mustStop s)"
  by (simp add: requests_def drain_mustResetLooper_def StereoLooper_Reset_def)

lemma requests_drain_mustRestart:
  "requests (drain_mustRestart ext s) =
     (mustClearBuffer s, mustResetLooper s, False, mustStart s, mustStop s)"
  by (simp add: requests_def drain_mustRestart_def)

lemma requests_drain_mustStart:
  "requests (drain_mustStart ext s) =
     (mustClearBuffer s, mustResetLooper s, mustRestart s,
      mustStart s \<and> \<not> (fst (Looper_Start ext (looperLeft s) False)
                        \<and> fst (Looper_Start ext (looperRight s) False)),
      mustStop s)"
  by (simp add: requests_def drain_mustStart_def Let_def split_beta)

lemma requests_drain_mustStop:
  "requests (drain_mustStop ext s) =
     (mustClearBuffer s, mustResetLooper s, mustRestart s, mustStart s,
      mustStop s \<and> \<not> (fst (Looper_Stop ext (looperLeft s) False)
                       \<and> fst (Looper_Stop ext (looperRight s) False)))"
  by (simp add: requests_def drain_mustStop_def Let_def split_beta)

lemma requests_Process_running:
  "\<exists>l1 r1 l2 r2.
     requests (snd (snd (snd (snd (Process_running ext s a b))))) =
       (False, False, False,
        mustStart s \<and> \<not> (fst (Looper_Start ext l1 False) \<and> fst (Looper_Start ext r1 False)),
        mustStop s \<and> \<not> (fst (Looper_Stop ext l2 False) \<and> fst (Looper_Stop ext r2 False)))"
proof -
  define s1 where "s1 = UpdateParameters ext s"
  define s2 where "s2 = drain_mustClearBuffer ext s1"
  define s3 where "s3 = drain_mustResetLooper ext s2"
  define s4 where "s4 = drain_mustRestart ext s3"
  define s5 where "s5 = drain_mustStart ext s4"
  define s6 where "s6 = drain_mustStop ext s5"
  have r1: "requests s1 = requests s"
    by (simp add: s1_def requests_UpdateParameters)
  have r2: "requests s2 = (False, mustResetLooper s, mustRestart s, mustStart s, mustStop s)"
    using r1 by (simp add: s2_def requests_drain_mustClearBuffer) (simp add: requests_def)
  have r3: "requests s3 = (False, False, mustRestart s, mustStart s, mustStop s)"
    using r2 by (simp add: s3_def requests_drain_mustResetLooper) (simp add: requests_def)
  have r4: "requests s4 = (False, False, False, mustStart s, mustStop s)"
    using r3 by (simp add: s4_def requests_drain_mustRestart) (simp add: requests_def)
  have r5: "requests s5 = (False, False, False,
      mustStart s \<and> \<not> (fst (Looper_Start ext (looperLeft s4) False)
                        \<and> fst (Looper_Start ext (looperRight s4) False)), mustStop s)"
    using r4 by (simp add: s5_def requests_drain_mustStart) (simp add: requests_def)
  have r6: "requests s6 = (False, False, False,
      mustStart s \<and> \<not> (fst (Looper_Start ext (looperLeft s4) False)
                        \<and> fst (Looper_Start ext (looperRight s4) False)),
      mustStop s \<and> \<not> (fst (Looper_Stop ext (looperLeft s5) False)
                       \<and> fst (Looper_Stop ext (looperRight s5) False)))"
    using r5 by (simp add: s6_def requests_drain_mustStop) (simp add: requests_def)
  have "snd (snd (snd (snd (Process_running ext s a b)))) =
      snd (snd (signal_path ext s6 (a * dryLevel s1) (b * dryLevel s1)))"
    by (simp add: Process_running_def Let_def split_beta s1_def s2_def s3_def s4_def s5_def s6_def)
  then have "requests (snd (snd (snd (snd (Process_running ext s a b))))) = requests s6"
    by (simp add: requests_signal_path)
  with r6 show ?thesis
    by (intro exI) simp
qed

lemma Process_running_state:
  assumes "state s = RECORDING \<or> state s = FROZEN"
  shows "requests (snd (Process ext s a b)) =
     requests (snd (snd (snd (snd (Process_running ext s (SoftClip ext (a * gain s))
                                      (SoftClip ext (b * gain s)))))))"
  using assms by (auto simp: Process_def Let_def split_beta requests_def)



lemma write_rate_request_Process:
  "write_rate_request (snd (Process ext s a b)) = write_rate_request s"
proof -
  have u: "write_rate_request (UpdateParameters ext t) = write_rate_request t" for t
    by (subst UpdateParameters_frame) (simp add: write_rate_request_def)
  have p: "write_rate_request (snd (snd (signal_path ext t x y))) = write_rate_request t" for t x y
    by (subst signal_path_frame) (simp add: write_rate_request_def)
  have d1: "write_rate_request (drain_mustClearBuffer ext t) = write_rate_request t" for t
    by (simp add: write_rate_request_def drain_mustClearBuffer_def)
  have d2: "write_rate_request (drain_mustResetLooper ext t) = write_rate_request t" for t
    by (simp add: write_rate_request_def drain_mustResetLooper_def StereoLooper_Reset_def)
  have d3: "write_rate_request (drain_mustRestart ext t) = write_rate_request t" for t
    by (simp add: write_rate_request_def drain_mustRestart_def)
  have d4: "write_rate_request (drain_mustStart ext t) = write_rate_request t" for t
    by (simp add: write_rate_request_def drain_mustStart_def Let_def split_beta)
  have d5: "write_rate_request (drain_mustStop ext t) = write_rate_request t" for t
    by (simp add: write_rate_request_def drain_mustStop_def Let_def split_beta)
  have run: "write_rate_request (snd (snd (snd (snd (Process_running ext s x y))))) =
      write_rate_request s" for x y
    by (simp add: Process_running_def Let_def split_beta p d1 d2 d3 d4 d5 u)
  have "write_rate_request (snd (Process ext s a b)) =
      (case state s of
         RECORDING \<Rightarrow> write_rate_request (snd (snd (snd (snd (Process_running ext s
                         (SoftClip ext (a * gain s)) (SoftClip ext (b * gain s)))))))
       | FROZEN \<Rightarrow> write_rate_request (snd (snd (snd (snd (Process_running ext s
                         (SoftClip ext (a * gain s)) (SoftClip ext (b * gain s)))))))
       | _ \<Rightarrow> write_rate_request s)"
    by (cases "state s") (simp_all add: Process_def Let_def split_beta write_rate_request_def)
  then show ?thesis
    by (cases "state s") (simp_all add: run)
qed

text \<open>
  Each request block as one update of the engine: what it does to its flag, to the two
  loopers and to the state; and the five blocks in the order of the source.
\<close>

lemma drain_mustClearBuffer_eq:
  "drain_mustClearBuffer ext s =
     s\<lparr> mustClearBuffer := False,
        looperLeft := (if mustClearBuffer s then Looper_ClearBuffer ext (looperLeft s)
                       else looperLeft s),
        looperRight := (if mustClearBuffer s then Looper_ClearBuffer ext (looperRight s)
                        else looperRight s) \<rparr>"
  by (cases s) (simp add: drain_mustClearBuffer_def)

lemma drain_mustResetLooper_eq:
  "drain_mustResetLooper ext s =
     s\<lparr> mustResetLooper := False,
        looperLeft := (if mustResetLooper s
                       then Looper_Reset ext (snd (Looper_Stop ext (looperLeft s) True))
                       else looperLeft s),
        looperRight := (if mustResetLooper s
                        then Looper_Reset ext (snd (Looper_Stop ext (looperRight s) True))
                        else looperRight s),
        state := (if mustResetLooper s then BUFFERING else state s) \<rparr>"
  by (cases s) (simp add: drain_mustResetLooper_def StereoLooper_Reset_def)

lemma drain_mustRestart_eq:
  "drain_mustRestart ext s =
     s\<lparr> mustRestart := False,
        looperLeft := (if mustRestart s then Looper_Trigger ext (looperLeft s) else looperLeft s),
        looperRight := (if mustRestart s then Looper_Trigger ext (looperRight s)
                        else looperRight s) \<rparr>"
  by (cases s) (simp add: drain_mustRestart_def)

lemma drain_mustStart_eq:
  "drain_mustStart ext s =
     s\<lparr> mustStart := (mustStart s \<and> \<not> (fst (Looper_Start ext (looperLeft s) False)
                                        \<and> fst (Looper_Start ext (looperRight s) False))),
        looperLeft := (if mustStart s then snd (Looper_Start ext (looperLeft s) False)
                       else looperLeft s),
        looperRight := (if mustStart s then snd (Looper_Start ext (looperRight s) False)
                        else looperRight s) \<rparr>"
  by (cases s) (simp add: drain_mustStart_def Let_def split_beta)

lemma drain_mustStop_eq:
  "drain_mustStop ext s =
     s\<lparr> mustStop := (mustStop s \<and> \<not> (fst (Looper_Stop ext (looperLeft s) False)
                                      \<and> fst (Looper_Stop ext (looperRight s) False))),
        looperLeft := (if mustStop s then snd (Looper_Stop ext (looperLeft s) False)
                       else looperLeft s),
        looperRight := (if mustStop s then snd (Looper_Stop ext (looperRight s) False)
                        else looperRight s) \<rparr>"
  by (cases s) (simp add: drain_mustStop_def Let_def split_beta)


lemma drains_eq:
  "drain_mustStop ext (drain_mustStart ext (drain_mustRestart ext
     (drain_mustResetLooper ext (drain_mustClearBuffer ext t)))) =
   (let lA = (if mustClearBuffer t then Looper_ClearBuffer ext (looperLeft t) else looperLeft t);
        rA = (if mustClearBuffer t then Looper_ClearBuffer ext (looperRight t) else looperRight t);
        lB = (if mustResetLooper t then Looper_Reset ext (snd (Looper_Stop ext lA True)) else lA);
        rB = (if mustResetLooper t then Looper_Reset ext (snd (Looper_Stop ext rA True)) else rA);
        lC = (if mustRestart t then Looper_Trigger ext lB else lB);
        rC = (if mustRestart t then Looper_Trigger ext rB else rB);
        lD = (if mustStart t then snd (Looper_Start ext lC False) else lC);
        rD = (if mustStart t then snd (Looper_Start ext rC False) else rC);
        lE = (if mustStop t then snd (Looper_Stop ext lD False) else lD);
        rE = (if mustStop t then snd (Looper_Stop ext rD False) else rD);
        startDone = (fst (Looper_Start ext lC False) \<and> fst (Looper_Start ext rC False));
        stopDone = (fst (Looper_Stop ext lD False) \<and> fst (Looper_Stop ext rD False))
    in t\<lparr> mustClearBuffer := False, mustResetLooper := False, mustRestart := False,
          mustStart := (mustStart t \<and> \<not> startDone), mustStop := (mustStop t \<and> \<not> stopDone),
          looperLeft := lE, looperRight := rE,
          state := (if mustResetLooper t then BUFFERING else state t) \<rparr>)"
  by (cases t)
    (simp add: drain_mustClearBuffer_eq drain_mustResetLooper_eq drain_mustRestart_eq
      drain_mustStart_eq drain_mustStop_eq Let_def)


lemma Process_running_end:
  assumes "state s = RECORDING \<or> state s = FROZEN"
  shows "snd (Process ext s leftIn rightIn) =
     (snd (snd (signal_path ext
        (drain_mustStop ext (drain_mustStart ext (drain_mustRestart ext
           (drain_mustResetLooper ext (drain_mustClearBuffer ext (UpdateParameters ext s))))))
        (SoftClip ext (leftIn * gain s) * dryLevel s)
        (SoftClip ext (rightIn * gain s) * dryLevel s))))
     \<lparr> cf := cf (snd (Process ext s leftIn rightIn)) \<rparr>"
proof -
  have d: "dryLevel (UpdateParameters ext s) = dryLevel s"
    by (subst UpdateParameters_frame) simp
  from assms show ?thesis
    by (auto simp: Process_def Process_running_def Let_def split_beta d)
qed

text \<open>
  Claim C5, amended. A call of \<open>Process\<close> in the Recording or Frozen state, after
  \<open>UpdateParameters\<close>, serves the pending requests on both channels, in this order and
  before the channels are read: a clear-buffer request calls \<open>ClearBuffer\<close>, a reset
  request calls \<open>Stop(true)\<close> and \<open>Reset\<close> and moves the engine to the Buffering state, a
  restart request calls \<open>Trigger\<close>, a start request calls \<open>Start(false)\<close> and a stop request
  calls \<open>Stop(false)\<close>. The rest of the call, the signal path, runs on the loopers so
  served (\<open>lE\<close> and \<open>rE\<close>), and the engine it leaves is the engine at the end of the call,
  up to the state of the crossfader. At the end of the call the clear-buffer, reset and
  restart flags are cleared; the start flag is set exactly if it was pending and the two
  calls of \<open>Start\<close> of this call did not both report done, and likewise the stop flag.
\<close>

theorem Process_applies_requests:
  assumes "state s = RECORDING \<or> state s = FROZEN"
  shows
    "let s1 = UpdateParameters ext s;
         lA = (if mustClearBuffer s then Looper_ClearBuffer ext (looperLeft s1) else looperLeft s1);
         rA = (if mustClearBuffer s then Looper_ClearBuffer ext (looperRight s1) else looperRight s1);
         lB = (if mustResetLooper s then Looper_Reset ext (snd (Looper_Stop ext lA True)) else lA);
         rB = (if mustResetLooper s then Looper_Reset ext (snd (Looper_Stop ext rA True)) else rA);
         lC = (if mustRestart s then Looper_Trigger ext lB else lB);
         rC = (if mustRestart s then Looper_Trigger ext rB else rB);
         lD = (if mustStart s then snd (Looper_Start ext lC False) else lC);
         rD = (if mustStart s then snd (Looper_Start ext rC False) else rC);
         lE = (if mustStop s then snd (Looper_Stop ext lD False) else lD);
         rE = (if mustStop s then snd (Looper_Stop ext rD False) else rD);
         startDone = (fst (Looper_Start ext lC False) \<and> fst (Looper_Start ext rC False));
         stopDone = (fst (Looper_Stop ext lD False) \<and> fst (Looper_Stop ext rD False));
         s2 = s\<lparr> mustClearBuffer := False, mustResetLooper := False, mustRestart := False,
                mustStart := (mustStart s \<and> \<not> startDone),
                mustStop := (mustStop s \<and> \<not> stopDone),
                looperLeft := lE, looperRight := rE,
                state := (if mustResetLooper s then BUFFERING else state s) \<rparr>;
         s' = snd (Process ext s leftIn rightIn)
     in s' = (snd (snd (signal_path ext s2 (SoftClip ext (leftIn * gain s) * dryLevel s)
                                          (SoftClip ext (rightIn * gain s) * dryLevel s))))
               \<lparr> cf := cf s' \<rparr>
        \<and> mustClearBuffer s' = False \<and> mustResetLooper s' = False \<and> mustRestart s' = False
        \<and> mustStart s' = (mustStart s \<and> \<not> startDone)
        \<and> mustStop s' = (mustStop s \<and> \<not> stopDone)
        \<and> state s' = (if mustResetLooper s then BUFFERING else state s)"
proof -
  define s1 where "s1 = UpdateParameters ext s"
  define lA where "lA = (if mustClearBuffer s then Looper_ClearBuffer ext (looperLeft s1) else looperLeft s1)"
  define rA where "rA = (if mustClearBuffer s then Looper_ClearBuffer ext (looperRight s1) else looperRight s1)"
  define lB where "lB = (if mustResetLooper s then Looper_Reset ext (snd (Looper_Stop ext lA True)) else lA)"
  define rB where "rB = (if mustResetLooper s then Looper_Reset ext (snd (Looper_Stop ext rA True)) else rA)"
  define lC where "lC = (if mustRestart s then Looper_Trigger ext lB else lB)"
  define rC where "rC = (if mustRestart s then Looper_Trigger ext rB else rB)"
  define lD where "lD = (if mustStart s then snd (Looper_Start ext lC False) else lC)"
  define rD where "rD = (if mustStart s then snd (Looper_Start ext rC False) else rC)"
  define lE where "lE = (if mustStop s then snd (Looper_Stop ext lD False) else lD)"
  define rE where "rE = (if mustStop s then snd (Looper_Stop ext rD False) else rD)"
  define startDone where "startDone = (fst (Looper_Start ext lC False) \<and> fst (Looper_Start ext rC False))"
  define stopDone where "stopDone = (fst (Looper_Stop ext lD False) \<and> fst (Looper_Stop ext rD False))"
  define s2 where "s2 = s\<lparr> mustClearBuffer := False, mustResetLooper := False, mustRestart := False,
                mustStart := (mustStart s \<and> \<not> startDone),
                mustStop := (mustStop s \<and> \<not> stopDone),
                looperLeft := lE, looperRight := rE,
                state := (if mustResetLooper s then BUFFERING else state s) \<rparr>"
  define dl where "dl = SoftClip ext (leftIn * gain s) * dryLevel s"
  define dr where "dr = SoftClip ext (rightIn * gain s) * dryLevel s"
  define s' where "s' = snd (Process ext s leftIn rightIn)"
  have fr: "s1 = s\<lparr> looperLeft := looperLeft s1, looperRight := looperRight s1 \<rparr>"
    unfolding s1_def by (rule UpdateParameters_frame)
  have fl: "mustClearBuffer s1 = mustClearBuffer s" "mustResetLooper s1 = mustResetLooper s"
    "mustRestart s1 = mustRestart s" "mustStart s1 = mustStart s" "mustStop s1 = mustStop s"
    "state s1 = state s"
    by (subst fr, simp)+
  have over: "s1\<lparr> mustClearBuffer := False, mustResetLooper := False, mustRestart := False,
                mustStart := (mustStart s \<and> \<not> startDone),
                mustStop := (mustStop s \<and> \<not> stopDone),
                looperLeft := lE, looperRight := rE,
                state := (if mustResetLooper s then BUFFERING else state s) \<rparr> = s2"
    unfolding s2_def by (subst fr) simp
  have "drain_mustStop ext (drain_mustStart ext (drain_mustRestart ext
     (drain_mustResetLooper ext (drain_mustClearBuffer ext s1)))) = s2"
    unfolding drains_eq Let_def fl
      lA_def [symmetric] rA_def [symmetric] lB_def [symmetric] rB_def [symmetric]
      lC_def [symmetric] rC_def [symmetric] lD_def [symmetric] rD_def [symmetric]
      lE_def [symmetric] rE_def [symmetric] startDone_def [symmetric] stopDone_def [symmetric]
    by (rule over)
  with Process_running_end [OF assms, of ext leftIn rightIn]
  have end_eq: "s' = (snd (snd (signal_path ext s2 dl dr)))\<lparr> cf := cf s' \<rparr>"
    by (simp add: s1_def s'_def dl_def dr_def)
  have sig: "snd (snd (signal_path ext s2 dl dr)) =
     s2\<lparr> looperLeft := looperLeft (snd (snd (signal_path ext s2 dl dr))),
         looperRight := looperRight (snd (snd (signal_path ext s2 dl dr))),
         outputFilter := outputFilter (snd (snd (signal_path ext s2 dl dr))),
         feedbackFilter := feedbackFilter (snd (snd (signal_path ext s2 dl dr))) \<rparr>"
    by (rule signal_path_frame)
  have flags: "mustClearBuffer s' = False" "mustResetLooper s' = False" "mustRestart s' = False"
    "mustStart s' = (mustStart s \<and> \<not> startDone)" "mustStop s' = (mustStop s \<and> \<not> stopDone)"
    "state s' = (if mustResetLooper s then BUFFERING else state s)"
    by (subst end_eq, subst sig, simp add: s2_def)+
  from end_eq flags show ?thesis
    unfolding Let_def s1_def [symmetric] lA_def [symmetric] rA_def [symmetric] lB_def [symmetric]
      rB_def [symmetric] lC_def [symmetric] rC_def [symmetric] lD_def [symmetric]
      rD_def [symmetric] lE_def [symmetric] rE_def [symmetric] startDone_def [symmetric]
      stopDone_def [symmetric] s2_def [symmetric] s'_def [symmetric] dl_def [symmetric]
      dr_def [symmetric]
    by (intro conjI)
qed


text \<open>
  A run with the clear-buffer, restart, start and stop requests pending, on loopers that
  record the calls they receive and report \<open>Start\<close> and \<open>Stop\<close> done: the four flags are
  cleared, the engine stays in the Recording state, and each request has reached the left
  looper, in the order of the source, before the sample is read.
\<close>

lemma test_engine_UpdateParameters:
  "UpdateParameters (test_collaborators b) (test_engine st) = test_engine st"
  by (simp add: UpdateParameters_def test_collaborators_def test_engine_def)

lemma test_engine_signal_path:
  "looperLeft (snd (snd (signal_path (test_collaborators True)
      ((test_engine RECORDING)\<lparr> mustClearBuffer := False, mustRestart := False, mustStart := False,
      mustStop := False,
      looperLeft := [''ClearBuffer'', ''Trigger'', ''Start'', ''Stop''],
      looperRight := [''ClearBuffer'', ''Trigger'', ''Start'', ''Stop''] \<rparr>) x y))) =
    [''ClearBuffer'', ''Trigger'', ''Start'', ''Stop'', ''Read'', ''Write'', ''UpdateReadPos'',
      ''UpdateWritePos'', ''HandleFade'']"
  by (simp add: signal_path_def Mix_def test_collaborators_def test_engine_def)

theorem Process_applies_requests_witness:
  "state (test_engine RECORDING) = RECORDING
   \<and> mustClearBuffer (test_engine RECORDING) \<and> mustRestart (test_engine RECORDING)
   \<and> mustStart (test_engine RECORDING) \<and> mustStop (test_engine RECORDING)
   \<and> \<not> mustClearBuffer (snd (Process (test_collaborators True) (test_engine RECORDING) 0 0))
   \<and> \<not> mustResetLooper (snd (Process (test_collaborators True) (test_engine RECORDING) 0 0))
   \<and> \<not> mustRestart (snd (Process (test_collaborators True) (test_engine RECORDING) 0 0))
   \<and> \<not> mustStart (snd (Process (test_collaborators True) (test_engine RECORDING) 0 0))
   \<and> \<not> mustStop (snd (Process (test_collaborators True) (test_engine RECORDING) 0 0))
   \<and> state (snd (Process (test_collaborators True) (test_engine RECORDING) 0 0)) = RECORDING
   \<and> looperLeft (snd (Process (test_collaborators True) (test_engine RECORDING) 0 0)) =
       [''ClearBuffer'', ''Trigger'', ''Start'', ''Stop'', ''Read'', ''Write'', ''UpdateReadPos'',
        ''UpdateWritePos'', ''HandleFade'']"
proof -
  let ?e = "test_collaborators True"
  let ?t = "test_engine RECORDING"
  let ?s' = "snd (Process ?e ?t 0 0)"
  let ?s2 = "?t\<lparr> mustClearBuffer := False, mustRestart := False, mustStart := False,
      mustStop := False,
      looperLeft := [''ClearBuffer'', ''Trigger'', ''Start'', ''Stop''],
      looperRight := [''ClearBuffer'', ''Trigger'', ''Start'', ''Stop''] \<rparr>"
  have st: "state ?t = RECORDING \<or> state ?t = FROZEN"
    by (simp add: test_engine_def)
  have pend: "state ?t = RECORDING" "mustClearBuffer ?t" "mustRestart ?t" "mustStart ?t"
    "mustStop ?t" "\<not> mustResetLooper ?t" "looperLeft ?t = []" "looperRight ?t = []"
    "gain ?t = 1" "dryLevel ?t = 1"
    by (simp_all add: test_engine_def)
  have calls: "Looper_ClearBuffer ?e = (\<lambda>l. l @ [''ClearBuffer''])"
    "Looper_Trigger ?e = (\<lambda>l. l @ [''Trigger''])"
    "Looper_Start ?e = (\<lambda>l fade. (True, l @ [''Start'']))"
    "Looper_Stop ?e = (\<lambda>l fade. (True, l @ [''Stop'']))"
    "SoftClip ?e = (\<lambda>x. x)"
    by (simp_all add: test_collaborators_def)
  have s2: "?t\<lparr> mustClearBuffer := False, mustResetLooper := False, mustRestart := False,
      mustStart := False, mustStop := False,
      looperLeft := [''ClearBuffer'', ''Trigger'', ''Start'', ''Stop''],
      looperRight := [''ClearBuffer'', ''Trigger'', ''Start'', ''Stop''],
      state := RECORDING \<rparr> = ?s2"
    by (simp add: test_engine_def)
  note t = Process_applies_requests [OF st, of ?e 0 0]
  from t have main: "?s' = (snd (snd (signal_path ?e ?s2 0 0)))\<lparr> cf := cf ?s' \<rparr>
      \<and> mustClearBuffer ?s' = False \<and> mustResetLooper ?s' = False \<and> mustRestart ?s' = False
      \<and> mustStart ?s' = False \<and> mustStop ?s' = False \<and> state ?s' = RECORDING"
    unfolding Let_def test_engine_UpdateParameters
    by (simp only: pend calls if_True if_False fst_conv snd_conv append_Nil append_Cons
        simp_thms mult_zero_left mult_1_right s2)
  then have "looperLeft ?s' = looperLeft ((snd (snd (signal_path ?e ?s2 0 0)))\<lparr> cf := cf ?s' \<rparr>)"
    by simp
  then have "looperLeft ?s' = [''ClearBuffer'', ''Trigger'', ''Start'', ''Stop'', ''Read'', ''Write'',
      ''UpdateReadPos'', ''UpdateWritePos'', ''HandleFade'']"
    by (simp add: test_engine_signal_path)
  with main pend show ?thesis by simp
qed

text \<open>
  The claim as written fails on two of the six requests. With a write-rate request
  pending for the left channel and a start request pending, on loopers whose \<open>Start\<close>
  reports that it is not done, \<open>Process\<close> in the Recording state leaves both pending:
  nothing in \<open>Process\<close> or \<open>UpdateParameters\<close> reads \<open>mustSetChannelWriteRate\<close>, and
  \<open>mustStart\<close> is cleared only under \<open>doneLeft && doneRight\<close>.
\<close>

theorem Process_requests_counterexample:
  "state (SetWriteRate (test_engine RECORDING) LEFT 2) = RECORDING
   \<and> mustSetChannelWriteRate (SetWriteRate (test_engine RECORDING) LEFT 2) = LEFT
   \<and> mustSetChannelWriteRate
       (snd (Process (test_collaborators False) (SetWriteRate (test_engine RECORDING) LEFT 2) 0 0)) = LEFT
   \<and> mustStart (SetWriteRate (test_engine RECORDING) LEFT 2)
   \<and> mustStart
       (snd (Process (test_collaborators False) (SetWriteRate (test_engine RECORDING) LEFT 2) 0 0))"
proof -
  let ?e = "test_collaborators False"
  let ?s = "SetWriteRate (test_engine RECORDING) LEFT 2"
  have init: "state ?s = RECORDING" "mustSetChannelWriteRate ?s = LEFT" "mustStart ?s"
    by (simp_all add: SetWriteRate_def test_engine_def)
  have "write_rate_request (snd (Process ?e ?s 0 0)) = write_rate_request ?s"
    by (rule write_rate_request_Process)
  then have wr: "mustSetChannelWriteRate (snd (Process ?e ?s 0 0)) = LEFT"
    using init(2) by (simp add: write_rate_request_def)
  have never: "\<not> fst (Looper_Start ?e l False)" for l
    by (simp add: test_collaborators_def)
  obtain l1 r1 l2 r2 where
    "requests (snd (snd (snd (snd (Process_running ?e ?s (SoftClip ?e (0 * gain ?s))
                                      (SoftClip ?e (0 * gain ?s))))))) =
       (False, False, False,
        mustStart ?s \<and> \<not> (fst (Looper_Start ?e l1 False) \<and> fst (Looper_Start ?e r1 False)),
        mustStop ?s \<and> \<not> (fst (Looper_Stop ?e l2 False) \<and> fst (Looper_Stop ?e r2 False)))"
    using requests_Process_running [of ?e ?s "SoftClip ?e (0 * gain ?s)" "SoftClip ?e (0 * gain ?s)"]
    by blast
  then have "requests (snd (Process ?e ?s 0 0)) =
       (False, False, False,
        mustStart ?s \<and> \<not> (fst (Looper_Start ?e l1 False) \<and> fst (Looper_Start ?e r1 False)),
        mustStop ?s \<and> \<not> (fst (Looper_Stop ?e l2 False) \<and> fst (Looper_Stop ?e r2 False)))"
    using init(1) by (simp only: Process_running_state [of ?s ?e 0 0, OF disjI1])
  then have "mustStart (snd (Process ?e ?s 0 0))"
    using init(3) never by (simp add: requests_def)
  with init wr show ?thesis by (intro conjI)
qed

end
